theory Spec2Isabelle
  imports Main
begin

section \<open>Configuration read-through cache of client-manager\<close>

text \<open>
  The development embeds the configuration data-access object (package dao, type
  \<open>ConfigDAO\<close>) and the create path of the configuration service (package services,
  type \<open>ConfigService\<close>). The relational store (gorm) and the key-value cache (go-redis)
  are external collaborators: they are modelled as explicit state with the primitives the
  code calls, and each primitive can be made to fail so that every error branch of the
  code is a branch of the model.
\<close>

subsection \<open>Errors\<close>

text \<open>
  Go's \<open>error\<close> interface is one type; the values that can flow through the code under
  study are the cache-miss sentinel \<open>redis.Nil\<close>, any other cache error, the store's
  \<open>gorm.ErrRecordNotFound\<close>, any other store error, and the three error structs of
  package services.
\<close>

datatype error =
    RedisNil
  | RedisError string
  | ErrRecordNotFound
  | DBError string
  | ValidationError string string
  | ConflictError string
  | NotFoundError string

subsection \<open>The configuration record\<close>

text \<open>
  Modelled from the spec: \<open>models.Configuration\<close> is declared in package models, whose
  file is not among the sources. The fields are the ones the code reads and writes
  (\<open>Namespace\<close>, \<open>Key\<close>, \<open>Value\<close>, \<open>Description\<close>, \<open>CreatedAt\<close>, \<open>UpdatedAt\<close>), the
  surrogate numeric identifier (a Go \<open>uint\<close>; no arithmetic is done on it, so it is a
  natural number here), and the tombstone of the soft delete that the spec describes.
  Timestamps are instants in seconds; the zero time is \<open>0\<close>.
\<close>

record Configuration =
  ID :: nat
  Namespace :: string
  Key :: string
  Value :: string
  Description :: string
  CreatedAt :: nat
  UpdatedAt :: nat
  DeletedAt :: "nat option"

text \<open>The zero value of the struct, as \<open>var config models.Configuration\<close> declares it.\<close>

definition zero_Configuration :: Configuration where
  "zero_Configuration =
     \<lparr>ID = 0, Namespace = [], Key = [], Value = [], Description = [],
      CreatedAt = 0, UpdatedAt = 0, DeletedAt = None\<rparr>"

subsection \<open>The durable store\<close>

text \<open>
  The table of configurations, in primary-key order; \<open>db_now\<close>, the instant the
  object-relational mapper reads when it writes a timestamp or a tombstone; and \<open>max_id\<close>,
  the largest identifier the store can hold. Each of the four kinds of statement the DAO
  issues can be made to fail with an opaque error.
  No uniqueness constraint on \<open>(namespace, key)\<close> is modelled: the spec states that the
  storage layer does not enforce one.
\<close>

record gorm_DB =
  rows :: "Configuration list"
  db_now :: nat
  max_id :: nat
  query_fault :: "string option"
  create_fault :: "string option"
  save_fault :: "string option"
  delete_fault :: "string option"

definition live :: "Configuration \<Rightarrow> bool" where
  "live r = (DeletedAt r = None)"

text \<open>\<open>db.Where("namespace = ? AND key = ?", namespace, key).First(&config)\<close>: the first
  row that is not soft-deleted, in primary-key order.\<close>

definition db_First_where :: "gorm_DB \<Rightarrow> string \<Rightarrow> string \<Rightarrow> error + Configuration" where
  "db_First_where d namespace key =
     (case query_fault d of
        Some m \<Rightarrow> Inl (DBError m)
      | None \<Rightarrow>
          (case find (\<lambda>r. live r \<and> Namespace r = namespace \<and> Key r = key) (rows d) of
             None \<Rightarrow> Inl ErrRecordNotFound
           | Some r \<Rightarrow> Inr r))"

text \<open>\<open>db.First(&config, id)\<close>: the row with that primary key, unless soft-deleted.\<close>

definition db_First_id :: "gorm_DB \<Rightarrow> nat \<Rightarrow> error + Configuration" where
  "db_First_id d i =
     (case query_fault d of
        Some m \<Rightarrow> Inl (DBError m)
      | None \<Rightarrow>
          (case find (\<lambda>r. live r \<and> ID r = i) (rows d) of
             None \<Rightarrow> Inl ErrRecordNotFound
           | Some r \<Rightarrow> Inr r))"

definition fresh_id :: "Configuration list \<Rightarrow> nat" where
  "fresh_id rs = Suc (fold max (map ID rs) 0)"

text \<open>The timestamps the mapper tracks on insert: a zero \<open>CreatedAt\<close> or \<open>UpdatedAt\<close> is
  set to the current instant, in the caller's struct and so in the row.\<close>

definition stamp_new :: "nat \<Rightarrow> Configuration \<Rightarrow> Configuration" where
  "stamp_new t c =
     c\<lparr>CreatedAt := (if CreatedAt c = 0 then t else CreatedAt c),
       UpdatedAt := (if UpdatedAt c = 0 then t else UpdatedAt c)\<rparr>"

text \<open>\<open>db.Create(config)\<close>: the timestamps are set in the caller's struct before the
  statement is sent. A zero identifier is replaced by a fresh one, which is written back
  into the struct; the insert fails when the store has no identifier left. A given
  identifier must not be taken.\<close>

definition db_Create :: "gorm_DB \<Rightarrow> Configuration \<Rightarrow> error option \<times> Configuration \<times> gorm_DB" where
  "db_Create d config =
     (let c = stamp_new (db_now d) config
      in case create_fault d of
           Some m \<Rightarrow> (Some (DBError m), c, d)
         | None \<Rightarrow>
             if ID c = 0 then
               (let c' = c\<lparr>ID := fresh_id (rows d)\<rparr>
                in if max_id d < ID c' then (Some (DBError ''identifier out of range''), c, d)
                   else (None, c', d\<lparr>rows := rows d @ [c']\<rparr>))
             else if ID c \<in> set (map ID (rows d)) then
               (Some (DBError ''duplicate primary key''), c, d)
             else if max_id d < ID c then (Some (DBError ''identifier out of range''), c, d)
             else (None, c, d\<lparr>rows := insort_key ID c (rows d)\<rparr>))"

text \<open>\<open>db.Save(config)\<close>: the full-record update. Without a primary key it is the insert
  of \<open>db.Create\<close>. With one, \<open>UpdatedAt\<close> is set to the current instant in the struct, and
  every column of the live row with that key is overwritten from the struct. When no live
  row has the key, the mapper retries as an insert that overwrites on a key conflict: a
  tombstoned row with the key is overwritten except for its \<open>CreatedAt\<close>, and a row is
  inserted when the key is not in the table.\<close>

definition db_Save :: "gorm_DB \<Rightarrow> Configuration \<Rightarrow> error option \<times> Configuration \<times> gorm_DB" where
  "db_Save d config =
     (if ID config = 0 then
        (let c = stamp_new (db_now d) config
         in case save_fault d of
              Some m \<Rightarrow> (Some (DBError m), c, d)
            | None \<Rightarrow>
                (let c' = c\<lparr>ID := fresh_id (rows d)\<rparr>
                 in if max_id d < ID c' then (Some (DBError ''identifier out of range''), c, d)
                    else (None, c', d\<lparr>rows := rows d @ [c']\<rparr>)))
      else
        (let c = config\<lparr>UpdatedAt := db_now d\<rparr>
         in case save_fault d of
              Some m \<Rightarrow> (Some (DBError m), c, d)
            | None \<Rightarrow>
                if \<exists>r \<in> set (rows d). ID r = ID c \<and> live r then
                  (None, c,
                   d\<lparr>rows := map (\<lambda>r. if ID r = ID c \<and> live r then c else r) (rows d)\<rparr>)
                else
                  (let c' = stamp_new (db_now d) c
                   in if ID c' \<in> set (map ID (rows d)) then
                        (None, c',
                         d\<lparr>rows := map (\<lambda>r. if ID r = ID c' then c'\<lparr>CreatedAt := CreatedAt r\<rparr>
                                              else r) (rows d)\<rparr>)
                      else if max_id d < ID c' then
                        (Some (DBError ''identifier out of range''), c', d)
                      else (None, c', d\<lparr>rows := insort_key ID c' (rows d)\<rparr>))))"

text \<open>\<open>db.Delete(&config)\<close>: the soft delete by primary key, as the spec describes the
  removal. The row stays in the table with its tombstone set, and later reads skip it.\<close>

definition db_Delete :: "gorm_DB \<Rightarrow> Configuration \<Rightarrow> error option \<times> gorm_DB" where
  "db_Delete d config =
     (case delete_fault d of
        Some m \<Rightarrow> (Some (DBError m), d)
      | None \<Rightarrow>
          (None,
           d\<lparr>rows := map (\<lambda>r. if ID r = ID config \<and> live r
                                then r\<lparr>DeletedAt := Some (db_now d)\<rparr> else r) (rows d)\<rparr>))"

subsection \<open>The cache\<close>

text \<open>
  The cache maps a key to a string value and the instant at which the entry expires;
  \<open>now\<close> is the cache server's clock, in seconds. Each of the three commands the DAO
  sends can be made to fail; a failed command leaves the entries as they were.
\<close>

record redis_Client =
  kv :: "string \<rightharpoonup> (string \<times> nat)"
  now :: nat
  get_fault :: "string option"
  set_fault :: "string option"
  del_fault :: "string option"

text \<open>\<open>time.Minute\<close>, with durations counted in seconds.\<close>

definition Minute :: nat where
  "Minute = 60"

text \<open>What the cache holds under a key at its current instant: an entry past its expiry
  is gone.\<close>

definition holds :: "redis_Client \<Rightarrow> string \<Rightarrow> string option" where
  "holds r k =
     (case kv r k of
        None \<Rightarrow> None
      | Some (v, expiry) \<Rightarrow> if now r < expiry then Some v else None)"

text \<open>\<open>redis.Get(ctx, key).Result()\<close>: the value, or \<open>redis.Nil\<close> for an absent or expired
  entry, or another error.\<close>

definition redis_Get :: "redis_Client \<Rightarrow> string \<Rightarrow> error + string" where
  "redis_Get r k =
     (case get_fault r of
        Some m \<Rightarrow> Inl (RedisError m)
      | None \<Rightarrow> (case holds r k of None \<Rightarrow> Inl RedisNil | Some v \<Rightarrow> Inr v))"

text \<open>\<open>redis.Set(ctx, key, value, ttl).Err()\<close>\<close>

definition redis_Set :: "redis_Client \<Rightarrow> string \<Rightarrow> string \<Rightarrow> nat \<Rightarrow> error option \<times> redis_Client" where
  "redis_Set r k v ttl =
     (case set_fault r of
        Some m \<Rightarrow> (Some (RedisError m), r)
      | None \<Rightarrow> (None, r\<lparr>kv := (kv r)(k \<mapsto> (v, now r + ttl))\<rparr>))"

text \<open>\<open>redis.Del(ctx, key).Err()\<close>\<close>

definition redis_Del :: "redis_Client \<Rightarrow> string \<Rightarrow> error option \<times> redis_Client" where
  "redis_Del r k =
     (case del_fault r of
        Some m \<Rightarrow> (Some (RedisError m), r)
      | None \<Rightarrow> (None, r\<lparr>kv := (kv r)(k := None)\<rparr>))"

subsection \<open>The logger\<close>

datatype level = InfoLevel | WarnLevel | ErrorLevel

text \<open>One entry per call of the logger: level, message, the error attached with
  \<open>WithError\<close>, and the fields attached with \<open>WithField\<close>/\<open>WithFields\<close>.\<close>

datatype log_entry = LogEntry level string "error option" "(string \<times> string) list"

subsection \<open>The data-access object\<close>

text \<open>\<open>redis = None\<close> is the nil client: no cache backend is configured.\<close>

record ConfigDAO =
  db :: gorm_DB
  redis :: "redis_Client option"
  log :: "log_entry list"

text \<open>The composite cache key, written in the source as
  \<open>"config:" + namespace + ":" + key\<close> at every use.\<close>

definition cacheKey :: "string \<Rightarrow> string \<Rightarrow> string" where
  "cacheKey namespace key = ''config:'' @ namespace @ '':'' @ key"

definition Warn :: "ConfigDAO \<Rightarrow> error \<Rightarrow> string \<Rightarrow> string \<Rightarrow> ConfigDAO" where
  "Warn dao err ck msg =
     dao\<lparr>log := log dao @ [LogEntry WarnLevel msg (Some err) [(''cache_key'', ck)]]\<rparr>"

definition GetConfiguration ::
  "ConfigDAO \<Rightarrow> string \<Rightarrow> string \<Rightarrow> (error + Configuration) \<times> ConfigDAO" where
  "GetConfiguration dao namespace key =
     (let config = zero_Configuration;
          (hit, dao1) =
            (case redis dao of
               None \<Rightarrow> (None, dao)
             | Some r \<Rightarrow>
                 (case redis_Get r (cacheKey namespace key) of
                    Inr cached \<Rightarrow>
                      (Some (config\<lparr>Value := cached, Namespace := namespace, Key := key\<rparr>), dao)
                  | Inl err \<Rightarrow>
                      if err \<noteq> RedisNil then
                        (None, Warn dao err (cacheKey namespace key)
                                 ''Redis get failed, falling back to database'')
                      else (None, dao)))
      in case hit of
           Some c \<Rightarrow> (Inr c, dao1)
         | None \<Rightarrow>
             (case db_First_where (db dao1) namespace key of
                Inl err \<Rightarrow> (Inl err, dao1)
              | Inr found \<Rightarrow>
                  (case redis dao1 of
                     None \<Rightarrow> (Inr found, dao1)
                   | Some r \<Rightarrow>
                       (case redis_Set r (cacheKey namespace key) (Value found) (5 * Minute) of
                          (None, r') \<Rightarrow> (Inr found, dao1\<lparr>redis := Some r'\<rparr>)
                        | (Some err, r') \<Rightarrow>
                            (Inr found,
                             Warn (dao1\<lparr>redis := Some r'\<rparr>) err (cacheKey namespace key)
                               ''Failed to cache configuration'')))))"

text \<open>\<open>GetSpecificConfiguration\<close> has the same body as \<open>GetConfiguration\<close> in the
  source; it is embedded line by line all the same.\<close>

definition GetSpecificConfiguration ::
  "ConfigDAO \<Rightarrow> string \<Rightarrow> string \<Rightarrow> (error + Configuration) \<times> ConfigDAO" where
  "GetSpecificConfiguration dao namespace key =
     (let config = zero_Configuration;
          (hit, dao1) =
            (case redis dao of
               None \<Rightarrow> (None, dao)
             | Some r \<Rightarrow>
                 (case redis_Get r (cacheKey namespace key) of
                    Inr cached \<Rightarrow>
                      (Some (config\<lparr>Value := cached, Namespace := namespace, Key := key\<rparr>), dao)
                  | Inl err \<Rightarrow>
                      if err \<noteq> RedisNil then
                        (None, Warn dao err (cacheKey namespace key)
                                 ''Redis get failed, falling back to database'')
                      else (None, dao)))
      in case hit of
           Some c \<Rightarrow> (Inr c, dao1)
         | None \<Rightarrow>
             (case db_First_where (db dao1) namespace key of
                Inl err \<Rightarrow> (Inl err, dao1)
              | Inr found \<Rightarrow>
                  (case redis dao1 of
                     None \<Rightarrow> (Inr found, dao1)
                   | Some r \<Rightarrow>
                       (case redis_Set r (cacheKey namespace key) (Value found) (5 * Minute) of
                          (None, r') \<Rightarrow> (Inr found, dao1\<lparr>redis := Some r'\<rparr>)
                        | (Some err, r') \<Rightarrow>
                            (Inr found,
                             Warn (dao1\<lparr>redis := Some r'\<rparr>) err (cacheKey namespace key)
                               ''Failed to cache configuration'')))))"

text \<open>The write operations take a pointer to the caller's struct; the store fills in the
  identifier on insert, so the struct is returned next to the error.\<close>

definition CreateConfiguration ::
  "ConfigDAO \<Rightarrow> Configuration \<Rightarrow> error option \<times> Configuration \<times> ConfigDAO" where
  "CreateConfiguration dao config =
     (case db_Create (db dao) config of
        (Some err, c, d) \<Rightarrow> (Some err, c, dao\<lparr>db := d\<rparr>)
      | (None, c, d) \<Rightarrow>
          (let dao1 = dao\<lparr>db := d\<rparr>
           in case redis dao1 of
                None \<Rightarrow> (None, c, dao1)
              | Some r \<Rightarrow>
                  (case redis_Del r (cacheKey (Namespace c) (Key c)) of
                     (None, r') \<Rightarrow> (None, c, dao1\<lparr>redis := Some r'\<rparr>)
                   | (Some err, r') \<Rightarrow>
                       (None, c,
                        Warn (dao1\<lparr>redis := Some r'\<rparr>) err (cacheKey (Namespace c) (Key c))
                          ''Failed to invalidate cache''))))"

definition UpdateConfiguration ::
  "ConfigDAO \<Rightarrow> Configuration \<Rightarrow> error option \<times> Configuration \<times> ConfigDAO" where
  "UpdateConfiguration dao config =
     (case db_Save (db dao) config of
        (Some err, c, d) \<Rightarrow> (Some err, c, dao\<lparr>db := d\<rparr>)
      | (None, c, d) \<Rightarrow>
          (let dao1 = dao\<lparr>db := d\<rparr>
           in case redis dao1 of
                None \<Rightarrow> (None, c, dao1)
              | Some r \<Rightarrow>
                  (case redis_Set r (cacheKey (Namespace c) (Key c)) (Value c) (5 * Minute) of
                     (None, r') \<Rightarrow> (None, c, dao1\<lparr>redis := Some r'\<rparr>)
                   | (Some err, r') \<Rightarrow>
                       (None, c,
                        Warn (dao1\<lparr>redis := Some r'\<rparr>) err (cacheKey (Namespace c) (Key c))
                          ''Failed to update cache''))))"

definition DeleteConfiguration :: "ConfigDAO \<Rightarrow> nat \<Rightarrow> error option \<times> ConfigDAO" where
  "DeleteConfiguration dao i =
     (case db_First_id (db dao) i of
        Inl err \<Rightarrow> (Some err, dao)
      | Inr config \<Rightarrow>
          (case db_Delete (db dao) config of
             (Some err, d) \<Rightarrow> (Some err, dao\<lparr>db := d\<rparr>)
           | (None, d) \<Rightarrow>
               (let dao1 = dao\<lparr>db := d\<rparr>
                in case redis dao1 of
                     None \<Rightarrow> (None, dao1)
                   | Some r \<Rightarrow>
                       (case redis_Del r (cacheKey (Namespace config) (Key config)) of
                          (None, r') \<Rightarrow> (None, dao1\<lparr>redis := Some r'\<rparr>)
                        | (Some err, r') \<Rightarrow>
                            (None,
                             Warn (dao1\<lparr>redis := Some r'\<rparr>) err
                               (cacheKey (Namespace config) (Key config))
                               ''Failed to invalidate cache'')))))"

subsection \<open>The create path of the service\<close>

text \<open>A value of \<open>map[string]interface{}\<close>: a string, or a value of any other dynamic
  type. \<open>assert_string\<close> is the type assertion \<open>data[k].(string)\<close> in its two-result
  form: the string and \<open>ok\<close>, the zero string and \<open>false\<close> for a missing key or a value
  that is not a string.\<close>

datatype iface = IString string | IOther

definition assert_string :: "iface option \<Rightarrow> string \<times> bool" where
  "assert_string x = (case x of Some (IString s) \<Rightarrow> (s, True) | _ \<Rightarrow> ([], False))"

text \<open>The logger field of the service is \<open>log\<close> in the source; it is \<open>svc_log\<close> here,
  and the method carries the prefix \<open>svc_\<close>, because the DAO has a field and a method of
  the same names.\<close>

record ConfigService =
  configDAO :: ConfigDAO
  svc_log :: "log_entry list"

text \<open>\<open>ConfigService.CreateConfiguration\<close>. The two readings of \<open>time.Now()\<close> are the
  arguments \<open>t1\<close> and \<open>t2\<close>.\<close>

definition svc_CreateConfiguration ::
  "ConfigService \<Rightarrow> nat \<Rightarrow> nat \<Rightarrow> (string \<rightharpoonup> iface) \<Rightarrow> (error + Configuration) \<times> ConfigService" where
  "svc_CreateConfiguration s t1 t2 data =
     (let (namespace, ok) = assert_string (data ''namespace'')
      in if \<not> ok \<or> namespace = [] then
           (Inl (ValidationError ''namespace'' ''namespace is required and must be a string''), s)
         else
           (let (key, ok) = assert_string (data ''key'')
            in if \<not> ok \<or> key = [] then
                 (Inl (ValidationError ''key'' ''key is required and must be a string''), s)
               else
                 (let value = fst (assert_string (data ''value''));
                      description = fst (assert_string (data ''description''));
                      namespace = fst (assert_string (data ''namespace''));
                      key = fst (assert_string (data ''key''))
                  in case GetSpecificConfiguration (configDAO s) namespace key of
                       (Inr existing, dao1) \<Rightarrow>
                         (Inl (ConflictError ''configuration already exists''),
                          s\<lparr>configDAO := dao1\<rparr>)
                     | (Inl _, dao1) \<Rightarrow>
                         (let config = zero_Configuration
                                \<lparr>Namespace := namespace, Key := key, Value := value,
                                 Description := description, CreatedAt := t1, UpdatedAt := t2\<rparr>
                          in case CreateConfiguration dao1 config of
                               (Some err, c, dao2) \<Rightarrow>
                                 (Inl err,
                                  s\<lparr>configDAO := dao2,
                                    svc_log := svc_log s @
                                      [LogEntry ErrorLevel ''Failed to create configuration''
                                         (Some err) [(''namespace'', namespace), (''key'', key)]]\<rparr>)
                             | (None, c, dao2) \<Rightarrow>
                                 (Inr c,
                                  s\<lparr>configDAO := dao2,
                                    svc_log := svc_log s @
                                      [LogEntry InfoLevel ''Configuration created successfully''
                                         None [(''namespace'', namespace), (''key'', key)]]\<rparr>)))))"

subsection \<open>Concrete states\<close>

text \<open>A store and a cache without faults, and the entry of the spec's scenario
  (\<open>build\<close>, \<open>timeout\<close>, \<open>30\<close>), used to run the operations on concrete inputs.\<close>

definition store_of :: "Configuration list \<Rightarrow> gorm_DB" where
  "store_of rs =
     \<lparr>rows = rs, db_now = 0, max_id = 9223372036854775807, query_fault = None,
      create_fault = None, save_fault = None, delete_fault = None\<rparr>"

definition cache_of :: "(string \<rightharpoonup> (string \<times> nat)) \<Rightarrow> redis_Client" where
  "cache_of m = \<lparr>kv = m, now = 0, get_fault = None, set_fault = None, del_fault = None\<rparr>"

definition timeout_row :: Configuration where
  "timeout_row =
     \<lparr>ID = 1, Namespace = ''build'', Key = ''timeout'', Value = ''30'',
      Description = ''seconds'', CreatedAt = 7, UpdatedAt = 7, DeletedAt = None\<rparr>"

definition cold_dao :: ConfigDAO where
  "cold_dao = \<lparr>db = store_of [timeout_row], redis = Some (cache_of Map.empty), log = []\<rparr>"

definition warm_dao :: ConfigDAO where
  "warm_dao =
     \<lparr>db = store_of [],
      redis = Some (cache_of [''config:build:timeout'' \<mapsto> (''30'', 300)]), log = []\<rparr>"

definition broken_get_dao :: ConfigDAO where
  "broken_get_dao =
     \<lparr>db = store_of [timeout_row],
      redis = Some ((cache_of Map.empty)\<lparr>get_fault := Some ''i/o timeout''\<rparr>), log = []\<rparr>"

text \<open>The table after the soft delete of identifier \<open>i\<close>: what \<open>db_Delete\<close> writes for a
  record with that identifier.\<close>

definition tombstone :: "gorm_DB \<Rightarrow> nat \<Rightarrow> Configuration list" where
  "tombstone d i =
     map (\<lambda>r. if ID r = i \<and> live r then r\<lparr>DeletedAt := Some (db_now d)\<rparr> else r) (rows d)"

text \<open>The scenario entry in the store and in the cache.\<close>

definition served_dao :: ConfigDAO where
  "served_dao =
     \<lparr>db = store_of [timeout_row],
      redis = Some (cache_of [''config:build:timeout'' \<mapsto> (''30'', 300)]), log = []\<rparr>"

text \<open>The record the service builds from a request before it calls the DAO.\<close>

definition requested :: "(string \<rightharpoonup> iface) \<Rightarrow> nat \<Rightarrow> nat \<Rightarrow> Configuration" where
  "requested data t1 t2 =
     zero_Configuration
       \<lparr>Namespace := fst (assert_string (data ''namespace'')),
        Key := fst (assert_string (data ''key'')),
        Value := fst (assert_string (data ''value'')),
        Description := fst (assert_string (data ''description'')),
        CreatedAt := t1, UpdatedAt := t2\<rparr>"

text \<open>A request for the scenario entry, and a service whose cache holds a value for the
  pair while its store holds no row at all.\<close>

definition timeout_request :: "string \<rightharpoonup> iface" where
  "timeout_request =
     [''namespace'' \<mapsto> IString ''build'', ''key'' \<mapsto> IString ''timeout'',
      ''value'' \<mapsto> IString ''30'']"

definition stale_service :: ConfigService where
  "stale_service = \<lparr>configDAO = warm_dao, svc_log = []\<rparr>"

text \<open>A store whose only row has a key that contains the delimiter, behind an empty
  cache; and a record for the pair that splits the same characters the other way.\<close>

definition colon_row :: Configuration where
  "colon_row =
     \<lparr>ID = 1, Namespace = ''a'', Key = ''b:c'', Value = ''v'', Description = [],
      CreatedAt = 0, UpdatedAt = 0, DeletedAt = None\<rparr>"

definition colon_dao :: ConfigDAO where
  "colon_dao = \<lparr>db = store_of [colon_row], redis = Some (cache_of Map.empty), log = []\<rparr>"

definition other_row :: Configuration where
  "other_row = zero_Configuration\<lparr>Namespace := ''a:b'', Key := ''c'', Value := ''w''\<rparr>"

text \<open>The record of a create for the scenario entry, and a state in which the store is
  empty, its clock reads 50, and the cache holds an older value for the pair and refuses
  the delete command.\<close>

definition new_timeout :: Configuration where
  "new_timeout = zero_Configuration\<lparr>Namespace := ''build'', Key := ''timeout'', Value := ''30''\<rparr>"

definition stale_del_dao :: ConfigDAO where
  "stale_del_dao =
     \<lparr>db = (store_of [])\<lparr>db_now := 50\<rparr>,
      redis = Some ((cache_of [''config:build:timeout'' \<mapsto> (''10'', 300)])
                      \<lparr>del_fault := Some ''connection refused''\<rparr>),
      log = []\<rparr>"

text \<open>The same state with a cache that accepts the delete command.\<close>

definition stale_dao :: ConfigDAO where
  "stale_dao =
     \<lparr>db = (store_of [])\<lparr>db_now := 50\<rparr>,
      redis = Some (cache_of [''config:build:timeout'' \<mapsto> (''10'', 300)]), log = []\<rparr>"

text \<open>A service over that state.\<close>

definition outdated_service :: ConfigService where
  "outdated_service = \<lparr>configDAO = stale_dao, svc_log = []\<rparr>"

text \<open>The scenario entry with a changed value, and a state in which the clock of the store
  reads 50 and the cache holds the value from before the change and refuses the set
  command.\<close>

definition changed_timeout :: Configuration where
  "changed_timeout = timeout_row\<lparr>Value := ''60''\<rparr>"

definition stale_set_dao :: ConfigDAO where
  "stale_set_dao =
     \<lparr>db = (store_of [timeout_row])\<lparr>db_now := 50\<rparr>,
      redis = Some ((cache_of [''config:build:timeout'' \<mapsto> (''30'', 300)])
                      \<lparr>set_fault := Some ''connection refused''\<rparr>),
      log = []\<rparr>"

text \<open>Two live rows for the pair of the scenario behind an empty cache; the update of the
  second row; and the state it leaves, with a cache whose get command fails.\<close>

definition older_row :: Configuration where
  "older_row = timeout_row\<lparr>Value := ''10''\<rparr>"

definition newer_row :: Configuration where
  "newer_row = timeout_row\<lparr>ID := 2\<rparr>"

definition twin_dao :: ConfigDAO where
  "twin_dao =
     \<lparr>db = (store_of [older_row, newer_row])\<lparr>db_now := 50\<rparr>,
      redis = Some (cache_of Map.empty), log = []\<rparr>"

definition twin_updated :: ConfigDAO where
  "twin_updated = snd (snd (UpdateConfiguration twin_dao (newer_row\<lparr>Value := ''60''\<rparr>)))"

definition twin_later :: ConfigDAO where
  "twin_later =
     twin_updated\<lparr>redis := map_option (\<lambda>r. r\<lparr>get_fault := Some ''i/o timeout''\<rparr>)
                                 (redis twin_updated)\<rparr>"

text \<open>The scenario entry in the store and in the cache, with the clock of the store at 50;
  the state that its update leaves; that state four minutes later; and the same with a
  cache whose get command fails.\<close>

definition served_at_50 :: ConfigDAO where
  "served_at_50 = served_dao\<lparr>db := (db served_dao)\<lparr>db_now := 50\<rparr>\<rparr>"

definition served_update :: ConfigDAO where
  "served_update = snd (snd (UpdateConfiguration served_at_50 changed_timeout))"

definition four_minutes_later :: ConfigDAO where
  "four_minutes_later =
     served_update\<lparr>redis := map_option (\<lambda>r. r\<lparr>now := now r + 4 * Minute\<rparr>)
                                   (redis served_update)\<rparr>"

definition four_minutes_later_unanswered :: ConfigDAO where
  "four_minutes_later_unanswered =
     four_minutes_later\<lparr>redis := map_option (\<lambda>r. r\<lparr>get_fault := Some ''i/o timeout''\<rparr>)
                                        (redis four_minutes_later)\<rparr>"

text \<open>A run of the four operations without any fault: create the scenario entry, fetch it,
  rename its key with an update, and fetch the pair of the first fetch again. The run
  starts from an empty store, with an empty cache or with no cache.\<close>

definition after_create :: "ConfigDAO \<Rightarrow> ConfigDAO" where
  "after_create dao = snd (snd (CreateConfiguration dao new_timeout))"

definition after_fetch :: "ConfigDAO \<Rightarrow> ConfigDAO" where
  "after_fetch dao = snd (GetConfiguration (after_create dao) ''build'' ''timeout'')"

definition after_rename :: "ConfigDAO \<Rightarrow> ConfigDAO" where
  "after_rename dao =
     snd (snd (UpdateConfiguration (after_fetch dao)
                 (new_timeout\<lparr>ID := 1, Key := ''deadline''\<rparr>)))"

definition rename_run :: "ConfigDAO \<Rightarrow> error + Configuration" where
  "rename_run dao = fst (GetConfiguration (after_rename dao) ''build'' ''timeout'')"

definition empty_cached :: ConfigDAO where
  "empty_cached = \<lparr>db = store_of [], redis = Some (cache_of Map.empty), log = []\<rparr>"

definition empty_uncached :: ConfigDAO where
  "empty_uncached = \<lparr>db = store_of [], redis = None, log = []\<rparr>"

text \<open>The store holds the scenario entry, its clock reads 50 and its queries fail; the
  cache is empty.\<close>

definition failing_read_service :: ConfigService where
  "failing_read_service =
     \<lparr>configDAO =
        \<lparr>db = (store_of [timeout_row])\<lparr>db_now := 50, query_fault := Some ''i/o timeout''\<rparr>,
         redis = Some (cache_of Map.empty), log = []\<rparr>,
      svc_log = []\<rparr>"

section \<open>Properties of the embedded operations\<close>

subsection \<open>The read path\<close>

lemma GetConfiguration_hit:
  "redis dao = Some r \<Longrightarrow> redis_Get r (cacheKey namespace key) = Inr cached \<Longrightarrow>
   GetConfiguration dao namespace key =
     (Inr (zero_Configuration\<lparr>Value := cached, Namespace := namespace, Key := key\<rparr>), dao)"
  by (simp add: GetConfiguration_def)

lemma GetConfiguration_nil:
  "redis dao = None \<Longrightarrow>
   GetConfiguration dao namespace key = (db_First_where (db dao) namespace key, dao)"
  by (simp add: GetConfiguration_def split: sum.splits)

lemma Warn_fields [simp]:
  "db (Warn dao err ck msg) = db dao"
  "redis (Warn dao err ck msg) = redis dao"
  "log (Warn dao err ck msg) = log dao @ [LogEntry WarnLevel msg (Some err) [(''cache_key'', ck)]]"
  by (simp_all add: Warn_def)

lemma GetConfiguration_fallthrough:
  "redis dao = Some r \<Longrightarrow> redis_Get r (cacheKey namespace key) = Inl e \<Longrightarrow>
   fst (GetConfiguration dao namespace key) = db_First_where (db dao) namespace key"
  by (auto simp: GetConfiguration_def split: sum.splits prod.splits option.splits)

lemma GetConfiguration_db:
  "db (snd (GetConfiguration dao namespace key)) = db dao"
  by (auto simp: GetConfiguration_def Let_def split: sum.splits prod.splits option.splits)

lemma GetConfiguration_populate:
  "redis dao = Some r \<Longrightarrow> redis_Get r (cacheKey namespace key) = Inl e \<Longrightarrow>
   db_First_where (db dao) namespace key = Inr found \<Longrightarrow>
   redis (snd (GetConfiguration dao namespace key)) =
     Some (snd (redis_Set r (cacheKey namespace key) (Value found) (5 * Minute)))"
  by (auto simp: GetConfiguration_def split: sum.splits prod.splits option.splits)

lemma GetConfiguration_notfound:
  "redis dao = Some r \<Longrightarrow> redis_Get r (cacheKey namespace key) = Inl e \<Longrightarrow>
   db_First_where (db dao) namespace key = Inl e' \<Longrightarrow>
   redis (snd (GetConfiguration dao namespace key)) = Some r"
  by (auto simp: GetConfiguration_def split: sum.splits prod.splits option.splits)

lemma GetSpecificConfiguration_eq:
  "GetSpecificConfiguration = GetConfiguration"
  by (intro ext) (simp add: GetSpecificConfiguration_def GetConfiguration_def)

lemma redis_Get_Inl:
  "redis_Get r k = Inl err \<Longrightarrow> err = RedisNil \<or> (\<exists>m. err = RedisError m)"
  by (auto simp: redis_Get_def split: option.splits)

lemma db_First_where_Inl:
  "db_First_where d namespace key = Inl err \<Longrightarrow>
   err = ErrRecordNotFound \<or> (\<exists>m. err = DBError m)"
  by (auto simp: db_First_where_def split: option.splits)

lemma GetConfiguration_warns:
  "redis dao = Some r \<Longrightarrow> redis_Get r (cacheKey namespace key) = Inl err \<Longrightarrow>
   err \<noteq> RedisNil \<Longrightarrow>
   LogEntry WarnLevel ''Redis get failed, falling back to database'' (Some err)
     [(''cache_key'', cacheKey namespace key)] \<in> set (log (snd (GetConfiguration dao namespace key)))"
  by (auto simp: GetConfiguration_def redis_Set_def split: sum.splits prod.splits option.splits)

subsection \<open>Delete\<close>

lemma find_Some_P: "find P xs = Some x \<Longrightarrow> P x"
  by (induction xs) (auto split: if_splits)

lemma db_First_id_ID: "db_First_id d i = Inr config \<Longrightarrow> ID config = i \<and> live config"
  by (auto simp: db_First_id_def split: option.splits dest: find_Some_P)

lemma db_First_id_absent:
  "query_fault d = None \<Longrightarrow> \<forall>row \<in> set (rows d). ID row = i \<longrightarrow> \<not> live row \<Longrightarrow>
   db_First_id d i = Inl ErrRecordNotFound"
  by (auto simp: db_First_id_def find_None_iff split: option.splits)

lemma tombstone_gone:
  "find (\<lambda>r. live r \<and> ID r = i)
     (map (\<lambda>r. if ID r = i \<and> live r then r\<lparr>DeletedAt := Some t\<rparr> else r) rs) = None"
  by (induction rs) (auto simp: live_def)

lemma DeleteConfiguration_lookup_fails:
  "db_First_id (db dao) i = Inl err \<Longrightarrow> DeleteConfiguration dao i = (Some err, dao)"
  by (simp add: DeleteConfiguration_def)

lemma DeleteConfiguration_delete_fails:
  "db_First_id (db dao) i = Inr config \<Longrightarrow> delete_fault (db dao) = Some m \<Longrightarrow>
   DeleteConfiguration dao i = (Some (DBError m), dao)"
  by (simp add: DeleteConfiguration_def db_Delete_def)

lemma DeleteConfiguration_store:
  "db_First_id (db dao) i = Inr config \<Longrightarrow> delete_fault (db dao) = None \<Longrightarrow>
   fst (DeleteConfiguration dao i) = None
   \<and> db (snd (DeleteConfiguration dao i)) = (db dao)\<lparr>rows := tombstone (db dao) i\<rparr>"
  by (frule db_First_id_ID)
     (auto simp: DeleteConfiguration_def db_Delete_def tombstone_def Let_def
           split: option.splits prod.splits)

lemma DeleteConfiguration_cache:
  "db_First_id (db dao) i = Inr config \<Longrightarrow> delete_fault (db dao) = None \<Longrightarrow>
   redis dao = Some r \<Longrightarrow> del_fault r = None \<Longrightarrow>
   redis (snd (DeleteConfiguration dao i)) =
     Some (r\<lparr>kv := (kv r)(cacheKey (Namespace config) (Key config) := None)\<rparr>)
   \<and> log (snd (DeleteConfiguration dao i)) = log dao"
  by (auto simp: DeleteConfiguration_def db_Delete_def redis_Del_def Let_def
           split: option.splits prod.splits)

lemma DeleteConfiguration_cache_fails:
  "db_First_id (db dao) i = Inr config \<Longrightarrow> delete_fault (db dao) = None \<Longrightarrow>
   redis dao = Some r \<Longrightarrow> del_fault r = Some m \<Longrightarrow>
   redis (snd (DeleteConfiguration dao i)) = Some r
   \<and> log (snd (DeleteConfiguration dao i)) =
       log dao @ [LogEntry WarnLevel ''Failed to invalidate cache'' (Some (RedisError m))
                    [(''cache_key'', cacheKey (Namespace config) (Key config))]]"
  by (auto simp: DeleteConfiguration_def db_Delete_def redis_Del_def Let_def
           split: option.splits prod.splits)

lemma DeleteConfiguration_nil:
  "db_First_id (db dao) i = Inr config \<Longrightarrow> delete_fault (db dao) = None \<Longrightarrow>
   redis dao = None \<Longrightarrow>
   redis (snd (DeleteConfiguration dao i)) = None
   \<and> log (snd (DeleteConfiguration dao i)) = log dao"
  by (auto simp: DeleteConfiguration_def db_Delete_def Let_def
           split: option.splits prod.splits)

subsection \<open>Create\<close>

lemma requested_ID: "ID (requested data t1 t2) = 0"
  by (simp add: requested_def zero_Configuration_def)

lemma CreateConfiguration_store:
  "fst (CreateConfiguration dao config) = fst (db_Create (db dao) config)
   \<and> fst (snd (CreateConfiguration dao config)) = fst (snd (db_Create (db dao) config))
   \<and> db (snd (snd (CreateConfiguration dao config))) = snd (snd (db_Create (db dao) config))"
  by (auto simp: CreateConfiguration_def Let_def split: option.splits prod.splits)

lemma GetSpecificConfiguration_db:
  "db (snd (GetSpecificConfiguration dao namespace key)) = db dao"
  by (simp add: GetSpecificConfiguration_eq GetConfiguration_db)

lemma svc_CreateConfiguration_no_namespace:
  "\<not> (\<exists>ns. data ''namespace'' = Some (IString ns) \<and> ns \<noteq> []) \<Longrightarrow>
   svc_CreateConfiguration s t1 t2 data =
     (Inl (ValidationError ''namespace'' ''namespace is required and must be a string''), s)"
proof -
  assume a: "\<not> (\<exists>ns. data ''namespace'' = Some (IString ns) \<and> ns \<noteq> [])"
  obtain n ok where p: "assert_string (data ''namespace'') = (n, ok)"
    by (cases "assert_string (data ''namespace'')")
  have "\<not> ok \<or> n = []"
    using a p by (auto simp: assert_string_def split: option.splits iface.splits)
  then show ?thesis
    unfolding svc_CreateConfiguration_def p by (simp del: One_nat_def)
qed

lemma svc_CreateConfiguration_no_key:
  "data ''namespace'' = Some (IString ns) \<Longrightarrow> ns \<noteq> [] \<Longrightarrow>
   \<not> (\<exists>k. data ''key'' = Some (IString k) \<and> k \<noteq> []) \<Longrightarrow>
   svc_CreateConfiguration s t1 t2 data =
     (Inl (ValidationError ''key'' ''key is required and must be a string''), s)"
proof -
  assume n: "data ''namespace'' = Some (IString ns)" "ns \<noteq> []"
  assume a: "\<not> (\<exists>k. data ''key'' = Some (IString k) \<and> k \<noteq> [])"
  have pn: "assert_string (data ''namespace'') = (ns, True)"
    using n by (simp add: assert_string_def)
  obtain k ok where p: "assert_string (data ''key'') = (k, ok)"
    by (cases "assert_string (data ''key'')")
  have "\<not> ok \<or> k = []"
    using a p by (auto simp: assert_string_def split: option.splits iface.splits)
  then show ?thesis
    unfolding svc_CreateConfiguration_def pn p using n(2) by simp
qed

lemma svc_CreateConfiguration_valid:
  assumes "data ''namespace'' = Some (IString ns)" "ns \<noteq> []"
    and "data ''key'' = Some (IString k)" "k \<noteq> []"
  shows "svc_CreateConfiguration s t1 t2 data =
     (case GetSpecificConfiguration (configDAO s) ns k of
        (Inr existing, dao1) \<Rightarrow>
          (Inl (ConflictError ''configuration already exists''), s\<lparr>configDAO := dao1\<rparr>)
      | (Inl e, dao1) \<Rightarrow>
          (case CreateConfiguration dao1 (requested data t1 t2) of
             (Some err, c, dao2) \<Rightarrow>
               (Inl err,
                s\<lparr>configDAO := dao2,
                  svc_log := svc_log s @
                    [LogEntry ErrorLevel ''Failed to create configuration''
                       (Some err) [(''namespace'', ns), (''key'', k)]]\<rparr>)
           | (None, c, dao2) \<Rightarrow>
               (Inr c,
                s\<lparr>configDAO := dao2,
                  svc_log := svc_log s @
                    [LogEntry InfoLevel ''Configuration created successfully''
                       None [(''namespace'', ns), (''key'', k)]]\<rparr>)))"
proof -
  have pn: "assert_string (data ''namespace'') = (ns, True)"
    using assms(1) by (simp add: assert_string_def)
  have pk: "assert_string (data ''key'') = (k, True)"
    using assms(3) by (simp add: assert_string_def)
  show ?thesis
    unfolding svc_CreateConfiguration_def requested_def pn pk Let_def
    using assms(2,4) by (simp split: prod.splits sum.splits option.splits)
qed

lemma svc_CreateConfiguration_conflict:
  assumes "data ''namespace'' = Some (IString ns)" "ns \<noteq> []"
    and "data ''key'' = Some (IString k)" "k \<noteq> []"
    and "GetSpecificConfiguration (configDAO s) ns k = (Inr existing, dao1)"
  shows "svc_CreateConfiguration s t1 t2 data =
     (Inl (ConflictError ''configuration already exists''), s\<lparr>configDAO := dao1\<rparr>)"
  unfolding svc_CreateConfiguration_valid [OF assms(1-4)] assms(5) by simp

lemma svc_CreateConfiguration_insert:
  assumes "data ''namespace'' = Some (IString ns)" "ns \<noteq> []"
    and "data ''key'' = Some (IString k)" "k \<noteq> []"
    and "GetSpecificConfiguration (configDAO s) ns k = (Inl e, dao1)"
  shows "fst (svc_CreateConfiguration s t1 t2 data) =
     (case fst (CreateConfiguration dao1 (requested data t1 t2)) of
        Some err \<Rightarrow> Inl err
      | None \<Rightarrow> Inr (fst (snd (CreateConfiguration dao1 (requested data t1 t2)))))
   \<and> configDAO (snd (svc_CreateConfiguration s t1 t2 data)) =
       snd (snd (CreateConfiguration dao1 (requested data t1 t2)))"
  unfolding svc_CreateConfiguration_valid [OF assms(1-4)] assms(5)
  by (cases "CreateConfiguration dao1 (requested data t1 t2)") (auto split: option.splits)

lemma svc_CreateConfiguration_invalid:
  assumes "\<not> (\<exists>ns k. data ''namespace'' = Some (IString ns) \<and> ns \<noteq> []
                  \<and> data ''key'' = Some (IString k) \<and> k \<noteq> [])"
  shows "snd (svc_CreateConfiguration s t1 t2 data) = s"
proof (cases "\<exists>ns. data ''namespace'' = Some (IString ns) \<and> ns \<noteq> []")
  case False
  then show ?thesis by (simp add: svc_CreateConfiguration_no_namespace)
next
  case True
  then obtain ns where n: "data ''namespace'' = Some (IString ns)" "ns \<noteq> []" by blast
  with assms have "\<not> (\<exists>k. data ''key'' = Some (IString k) \<and> k \<noteq> [])" by blast
  from svc_CreateConfiguration_no_key [OF n this] show ?thesis by simp
qed

subsection \<open>The composite key\<close>

lemma cacheKey_shift: "cacheKey ns (k @ '':'' @ x) = cacheKey (ns @ '':'' @ k) x"
  by (simp add: cacheKey_def)

lemma colon_dao_fetch:
  "GetConfiguration colon_dao ''a'' ''b:c'' =
     (Inr colon_row,
      \<lparr>db = store_of [colon_row],
       redis = Some (cache_of [''config:a:b:c'' \<mapsto> (''v'', 300)]), log = []\<rparr>)"
  by (simp add: GetConfiguration_def colon_dao_def cache_of_def redis_Get_def holds_def
        db_First_where_def store_of_def colon_row_def live_def redis_Set_def cacheKey_def
        Minute_def)

lemma colon_dao_other_hit:
  "GetConfiguration
     \<lparr>db = store_of [colon_row],
      redis = Some (cache_of [''config:a:b:c'' \<mapsto> (''v'', 300)]), log = []\<rparr> ''a:b'' ''c'' =
     (Inr \<lparr>ID = 0, Namespace = ''a:b'', Key = ''c'', Value = ''v'', Description = [],
           CreatedAt = 0, UpdatedAt = 0, DeletedAt = None\<rparr>,
      \<lparr>db = store_of [colon_row],
       redis = Some (cache_of [''config:a:b:c'' \<mapsto> (''v'', 300)]), log = []\<rparr>)"
  by (simp add: GetConfiguration_def cache_of_def redis_Get_def holds_def cacheKey_def
        zero_Configuration_def)

lemma colon_dao_other_create:
  "redis (snd (snd (CreateConfiguration
     \<lparr>db = store_of [colon_row],
      redis = Some (cache_of [''config:a:b:c'' \<mapsto> (''v'', 300)]), log = []\<rparr> other_row))) =
   Some (cache_of Map.empty)"
  by (simp add: CreateConfiguration_def db_Create_def stamp_new_def fresh_id_def store_of_def
        other_row_def colon_row_def zero_Configuration_def Let_def redis_Del_def cache_of_def
        cacheKey_def)

subsection \<open>Update\<close>

lemma UpdateConfiguration_store:
  "fst (UpdateConfiguration dao config) = fst (db_Save (db dao) config)
   \<and> fst (snd (UpdateConfiguration dao config)) = fst (snd (db_Save (db dao) config))
   \<and> db (snd (snd (UpdateConfiguration dao config))) = snd (snd (db_Save (db dao) config))"
  by (auto simp: UpdateConfiguration_def Let_def split: option.splits prod.splits)

subsection \<open>No cache configured\<close>

lemma CreateConfiguration_nil:
  "redis dao = None \<Longrightarrow>
   CreateConfiguration dao config =
     (fst (db_Create (db dao) config), fst (snd (db_Create (db dao) config)),
      dao\<lparr>db := snd (snd (db_Create (db dao) config))\<rparr>)"
  by (cases "db_Create (db dao) config")
     (auto simp: CreateConfiguration_def Let_def split: option.splits)

lemma UpdateConfiguration_nil:
  "redis dao = None \<Longrightarrow>
   UpdateConfiguration dao config =
     (fst (db_Save (db dao) config), fst (snd (db_Save (db dao) config)),
      dao\<lparr>db := snd (snd (db_Save (db dao) config))\<rparr>)"
  by (cases "db_Save (db dao) config")
     (auto simp: UpdateConfiguration_def Let_def split: option.splits)

lemma DeleteConfiguration_nil_path:
  "redis dao = None \<Longrightarrow>
   DeleteConfiguration dao i =
     (case db_First_id (db dao) i of
        Inl err \<Rightarrow> (Some err, dao)
      | Inr config \<Rightarrow>
          (fst (db_Delete (db dao) config), dao\<lparr>db := snd (db_Delete (db dao) config)\<rparr>))"
  by (auto simp: DeleteConfiguration_def Let_def split: sum.splits option.splits prod.splits)

lemma DeleteConfiguration_outcome:
  "fst (DeleteConfiguration dao i) =
     (case db_First_id (db dao) i of
        Inl err \<Rightarrow> Some err
      | Inr config \<Rightarrow> fst (db_Delete (db dao) config))
   \<and> db (snd (DeleteConfiguration dao i)) =
     (case db_First_id (db dao) i of
        Inl err \<Rightarrow> db dao
      | Inr config \<Rightarrow> snd (db_Delete (db dao) config))"
  by (auto simp: DeleteConfiguration_def Let_def split: sum.splits option.splits prod.splits)

lemma rename_run_cached:
  "rename_run empty_cached =
     Inr \<lparr>ID = 0, Namespace = ''build'', Key = ''timeout'', Value = ''30'', Description = [],
          CreatedAt = 0, UpdatedAt = 0, DeletedAt = None\<rparr>"
proof -
  have 1: "after_create empty_cached =
             \<lparr>db = store_of [new_timeout\<lparr>ID := 1\<rparr>], redis = Some (cache_of Map.empty), log = []\<rparr>"
    by (simp add: after_create_def CreateConfiguration_def empty_cached_def db_Create_def stamp_new_def
          store_of_def new_timeout_def zero_Configuration_def Let_def fresh_id_def
          redis_Del_def cache_of_def)
  have 2: "after_fetch empty_cached =
             \<lparr>db = store_of [new_timeout\<lparr>ID := 1\<rparr>],
              redis = Some (cache_of [''config:build:timeout'' \<mapsto> (''30'', 300)]), log = []\<rparr>"
    unfolding after_fetch_def 1
    by (simp add: GetConfiguration_def redis_Get_def holds_def cache_of_def db_First_where_def
          store_of_def new_timeout_def zero_Configuration_def live_def redis_Set_def
          cacheKey_def Minute_def)
  have 3: "after_rename empty_cached =
             \<lparr>db = store_of [new_timeout\<lparr>ID := 1, Key := ''deadline''\<rparr>],
              redis = Some (cache_of [''config:build:timeout'' \<mapsto> (''30'', 300),
                                      ''config:build:deadline'' \<mapsto> (''30'', 300)]),
              log = []\<rparr>"
    unfolding after_rename_def 2
    by (simp add: UpdateConfiguration_def db_Save_def stamp_new_def live_def store_of_def new_timeout_def
          zero_Configuration_def Let_def redis_Set_def cache_of_def cacheKey_def Minute_def)
  show ?thesis
    unfolding rename_run_def 3
    by (simp add: GetConfiguration_def redis_Get_def holds_def cache_of_def cacheKey_def
          zero_Configuration_def)
qed

lemma rename_run_uncached:
  "rename_run empty_uncached = Inl ErrRecordNotFound"
proof -
  have 1: "after_create empty_uncached =
             \<lparr>db = store_of [new_timeout\<lparr>ID := 1\<rparr>], redis = None, log = []\<rparr>"
    by (simp add: after_create_def CreateConfiguration_def empty_uncached_def db_Create_def stamp_new_def
          store_of_def new_timeout_def zero_Configuration_def Let_def fresh_id_def)
  have 2: "after_fetch empty_uncached =
             \<lparr>db = store_of [new_timeout\<lparr>ID := 1\<rparr>], redis = None, log = []\<rparr>"
    unfolding after_fetch_def 1
    by (simp add: GetConfiguration_nil)
  have 3: "after_rename empty_uncached =
             \<lparr>db = store_of [new_timeout\<lparr>ID := 1, Key := ''deadline''\<rparr>],
              redis = None, log = []\<rparr>"
    unfolding after_rename_def 2
    by (simp add: UpdateConfiguration_def db_Save_def stamp_new_def live_def store_of_def new_timeout_def
          zero_Configuration_def Let_def)
  show ?thesis
    unfolding rename_run_def 3
    by (simp add: GetConfiguration_nil db_First_where_def store_of_def new_timeout_def
          zero_Configuration_def live_def)
qed

subsection \<open>The insert\<close>

lemma stamp_new_keeps:
  "ID (stamp_new t c) = ID c \<and> Namespace (stamp_new t c) = Namespace c
   \<and> Key (stamp_new t c) = Key c \<and> Value (stamp_new t c) = Value c
   \<and> DeletedAt (stamp_new t c) = DeletedAt c"
  by (simp add: stamp_new_def)

lemma db_Create_fails:
  "fst (db_Create d config) = Some e \<Longrightarrow> snd (snd (db_Create d config)) = d"
  by (auto simp: db_Create_def Let_def split: option.splits if_splits)

lemma db_Create_keeps_pair:
  "Namespace (fst (snd (db_Create d config))) = Namespace config
   \<and> Key (fst (snd (db_Create d config))) = Key config
   \<and> Value (fst (snd (db_Create d config))) = Value config
   \<and> DeletedAt (fst (snd (db_Create d config))) = DeletedAt config"
  by (auto simp: db_Create_def Let_def stamp_new_keeps split: option.splits)

lemma db_Create_faults:
  "query_fault (snd (snd (db_Create d config))) = query_fault d"
  by (auto simp: db_Create_def Let_def split: option.splits)

lemma db_Create_fresh:
  "fst (db_Create d config) = None \<Longrightarrow> ID config = 0 \<Longrightarrow>
   snd (snd (db_Create d config)) = d\<lparr>rows := rows d @ [fst (snd (db_Create d config))]\<rparr>"
  by (auto simp: db_Create_def Let_def stamp_new_keeps split: option.splits if_splits)

lemma db_Create_rows:
  "fst (db_Create d config) = None \<Longrightarrow>
   set (rows (snd (snd (db_Create d config)))) =
     insert (fst (snd (db_Create d config))) (set (rows d))"
  by (auto simp: db_Create_def Let_def set_insort_key split: option.splits if_splits)

lemma find_unique:
  "c \<in> set xs \<Longrightarrow> P c \<Longrightarrow> \<forall>x \<in> set xs. P x \<longrightarrow> x = c \<Longrightarrow> find P xs = Some c"
proof (induction xs)
  case Nil
  then show ?case by simp
next
  case (Cons a xs)
  show ?case
  proof (cases "P a")
    case True
    with Cons.prems(3) have "a = c" by simp
    with True show ?thesis by simp
  next
    case False
    with Cons.prems(2) have "a \<noteq> c" by blast
    with Cons.prems(1) have "c \<in> set xs" by simp
    moreover have "\<forall>x \<in> set xs. P x \<longrightarrow> x = c" using Cons.prems(3) by simp
    ultimately have "find P xs = Some c" using Cons.IH Cons.prems(2) by blast
    with False show ?thesis by simp
  qed
qed

lemma db_First_where_created:
  assumes "\<forall>row \<in> set (rows d).
             \<not> (live row \<and> Namespace row = Namespace config \<and> Key row = Key config)"
    and "live config" and "query_fault d = None" and "fst (db_Create d config) = None"
  shows "db_First_where (snd (snd (db_Create d config))) (Namespace config) (Key config) =
           Inr (fst (snd (db_Create d config)))"
proof -
  let ?c = "fst (snd (db_Create d config))"
  let ?P = "\<lambda>r. live r \<and> Namespace r = Namespace config \<and> Key r = Key config"
  have s: "set (rows (snd (snd (db_Create d config)))) = insert ?c (set (rows d))"
    using assms(4) by (rule db_Create_rows)
  have p: "?P ?c"
    using db_Create_keeps_pair [of d config] assms(2) by (simp add: live_def)
  have "find ?P (rows (snd (snd (db_Create d config)))) = Some ?c"
  proof (rule find_unique)
    show "?c \<in> set (rows (snd (snd (db_Create d config))))" using s by simp
    show "?P ?c" by (rule p)
    show "\<forall>x \<in> set (rows (snd (snd (db_Create d config)))). ?P x \<longrightarrow> x = ?c"
      using s assms(1) by blast
  qed
  then show ?thesis
    by (simp add: db_First_where_def db_Create_faults assms(3))
qed

lemma requested_pair:
  "data ''namespace'' = Some (IString ns) \<Longrightarrow> data ''key'' = Some (IString k) \<Longrightarrow>
   Namespace (requested data t1 t2) = ns \<and> Key (requested data t1 t2) = k
   \<and> DeletedAt (requested data t1 t2) = None"
  by (simp add: requested_def assert_string_def zero_Configuration_def)

subsection \<open>Create followed by a fetch\<close>

lemma CreateConfiguration_insert_fails:
  assumes "fst (db_Create (db dao) config) = Some e"
  shows "fst (CreateConfiguration dao config) = Some e
       \<and> snd (snd (CreateConfiguration dao config)) = dao"
proof -
  obtain c d where p: "db_Create (db dao) config = (Some e, c, d)"
    using assms by (cases "db_Create (db dao) config") simp
  have "d = db dao"
    using db_Create_fails [OF assms] p by simp
  with p show ?thesis
    by (simp add: CreateConfiguration_def)
qed

lemma CreateConfiguration_del_ok:
  "fst (db_Create (db dao) config) = None \<Longrightarrow> redis dao = Some r \<Longrightarrow> del_fault r = None \<Longrightarrow>
   redis (snd (snd (CreateConfiguration dao config))) =
     Some (r\<lparr>kv := (kv r)(cacheKey (Namespace config) (Key config) := None)\<rparr>)
   \<and> log (snd (snd (CreateConfiguration dao config))) = log dao"
  using db_Create_keeps_pair [of "db dao" config]
  by (cases "db_Create (db dao) config")
     (auto simp: CreateConfiguration_def redis_Del_def Let_def)

lemma CreateConfiguration_del_logged:
  "fst (db_Create (db dao) config) = None \<Longrightarrow> redis dao = Some r \<Longrightarrow> del_fault r = Some m \<Longrightarrow>
   log (snd (snd (CreateConfiguration dao config))) =
     log dao @ [LogEntry WarnLevel ''Failed to invalidate cache'' (Some (RedisError m))
                  [(''cache_key'', cacheKey (Namespace config) (Key config))]]"
  using db_Create_keeps_pair [of "db dao" config]
  by (cases "db_Create (db dao) config")
     (auto simp: CreateConfiguration_def redis_Del_def Let_def)

lemma redis_Get_absent:
  "kv r k = None \<Longrightarrow> \<exists>e. redis_Get r k = Inl e"
  by (cases "get_fault r") (simp_all add: redis_Get_def holds_def)

lemma fetch_after_invalidation:
  assumes "redis dao' = Some r'" and "kv r' (cacheKey namespace key) = None"
  shows "fst (GetConfiguration dao' namespace key) = db_First_where (db dao') namespace key"
proof -
  obtain e where "redis_Get r' (cacheKey namespace key) = Inl e"
    using redis_Get_absent [OF assms(2)] by blast
  with assms(1) show ?thesis by (rule GetConfiguration_fallthrough)
qed

lemma GetConfiguration_Inl_redis:
  "fst (GetConfiguration dao namespace key) = Inl e \<Longrightarrow>
   redis (snd (GetConfiguration dao namespace key)) = redis dao"
  by (auto simp: GetConfiguration_def Let_def
           split: sum.splits prod.splits option.splits if_splits)

lemma svc_CreateConfiguration_success:
  assumes v: "data ''namespace'' = Some (IString ns)" "ns \<noteq> []"
             "data ''key'' = Some (IString k)" "k \<noteq> []"
    and ok: "fst (svc_CreateConfiguration s t1 t2 data) = Inr c"
  shows "\<exists>e dao1. GetSpecificConfiguration (configDAO s) ns k = (Inl e, dao1)
           \<and> fst (CreateConfiguration dao1 (requested data t1 t2)) = None
           \<and> configDAO (snd (svc_CreateConfiguration s t1 t2 data)) =
               snd (snd (CreateConfiguration dao1 (requested data t1 t2)))"
proof -
  obtain res dao1 where g: "GetSpecificConfiguration (configDAO s) ns k = (res, dao1)"
    by (cases "GetSpecificConfiguration (configDAO s) ns k")
  show ?thesis
  proof (cases res)
    case (Inr existing)
    with g ok svc_CreateConfiguration_conflict [OF v, of s existing dao1 t1 t2]
    show ?thesis by simp
  next
    case (Inl e)
    with g have d: "GetSpecificConfiguration (configDAO s) ns k = (Inl e, dao1)" by simp
    note i = svc_CreateConfiguration_insert [OF v d, of t1 t2]
    have "fst (CreateConfiguration dao1 (requested data t1 t2)) = None"
      using i ok by (cases "fst (CreateConfiguration dao1 (requested data t1 t2))") simp_all
    with d i show ?thesis by blast
  qed
qed

lemma svc_CreateConfiguration_then_fetch:
  assumes v: "data ''namespace'' = Some (IString ns)" "ns \<noteq> []"
             "data ''key'' = Some (IString k)" "k \<noteq> []"
    and ok: "fst (svc_CreateConfiguration s t1 t2 data) = Inr c"
    and r: "redis (configDAO s) = Some r" and d: "del_fault r = None"
  shows "fst (GetConfiguration (configDAO (snd (svc_CreateConfiguration s t1 t2 data))) ns k) =
           db_First_where (db (configDAO (snd (svc_CreateConfiguration s t1 t2 data)))) ns k"
proof -
  let ?req = "requested data t1 t2"
  obtain e dao1 where g: "GetSpecificConfiguration (configDAO s) ns k = (Inl e, dao1)"
      and c: "fst (CreateConfiguration dao1 ?req) = None"
      and a: "configDAO (snd (svc_CreateConfiguration s t1 t2 data)) =
                snd (snd (CreateConfiguration dao1 ?req))"
    using svc_CreateConfiguration_success [OF v ok] by blast
  have r1: "redis dao1 = Some r"
    using GetConfiguration_Inl_redis [of "configDAO s" ns k e] g r
    by (simp add: GetSpecificConfiguration_eq)
  have ok1: "fst (db_Create (db dao1) ?req) = None"
    using c CreateConfiguration_store [of dao1 ?req] by simp
  have p: "Namespace ?req = ns \<and> Key ?req = k"
    using requested_pair [OF v(1) v(3), of t1 t2] by simp
  have "redis (snd (snd (CreateConfiguration dao1 ?req))) =
          Some (r\<lparr>kv := (kv r)(cacheKey ns k := None)\<rparr>)"
    using CreateConfiguration_del_ok [OF ok1 r1 d] p by simp
  then show ?thesis
    unfolding a by (rule fetch_after_invalidation) simp
qed

subsection \<open>Update followed by a fetch\<close>

lemma db_Save_keeps_pair:
  "Namespace (fst (snd (db_Save d config))) = Namespace config
   \<and> Key (fst (snd (db_Save d config))) = Key config
   \<and> Value (fst (snd (db_Save d config))) = Value config"
proof (cases "save_fault d")
  case None
  then show ?thesis
    by (cases "ID config = 0") (simp_all add: db_Save_def Let_def stamp_new_keeps)
next
  case (Some m)
  then show ?thesis
    by (cases "ID config = 0") (simp_all add: db_Save_def Let_def stamp_new_keeps)
qed

lemma db_Save_ok_fault:
  "fst (db_Save d config) = None \<Longrightarrow> save_fault d = None"
  by (cases "save_fault d"; cases "ID config = 0") (simp_all add: db_Save_def Let_def)

lemma db_Save_live_row:
  assumes "ID config \<noteq> 0" and "save_fault d = None"
    and "\<exists>r \<in> set (rows d). ID r = ID config \<and> live r"
  shows "db_Save d config =
           (None, config\<lparr>UpdatedAt := db_now d\<rparr>,
            d\<lparr>rows := map (\<lambda>r. if ID r = ID config \<and> live r
                                 then config\<lparr>UpdatedAt := db_now d\<rparr> else r) (rows d)\<rparr>)"
  using assms by (simp add: db_Save_def Let_def)

lemma find_map_replace:
  assumes "\<exists>r \<in> set xs. Q r" and "P c" and "\<forall>r \<in> set xs. \<not> Q r \<longrightarrow> \<not> P r"
  shows "find P (map (\<lambda>r. if Q r then c else r) xs) = Some c"
  using assms
proof (induction xs)
  case Nil
  then show ?case by simp
next
  case (Cons a xs)
  show ?case
  proof (cases "Q a")
    case True
    with Cons.prems(2) show ?thesis by simp
  next
    case False
    with Cons.prems(3) have np: "\<not> P a" by simp
    from False Cons.prems(1) have "\<exists>r \<in> set xs. Q r" by simp
    moreover from Cons.prems(3) have "\<forall>r \<in> set xs. \<not> Q r \<longrightarrow> \<not> P r" by simp
    ultimately have "find P (map (\<lambda>r. if Q r then c else r) xs) = Some c"
      using Cons.IH Cons.prems(2) by blast
    with False np show ?thesis by simp
  qed
qed

lemma db_First_where_saved:
  assumes id: "ID config \<noteq> 0" and lv: "live config"
    and ex: "\<exists>r \<in> set (rows d). ID r = ID config \<and> live r"
    and un: "\<forall>row \<in> set (rows d). live row \<and> ID row \<noteq> ID config \<longrightarrow>
               \<not> (Namespace row = Namespace config \<and> Key row = Key config)"
    and ok: "fst (db_Save d config) = None"
    and same: "rows d' = rows (snd (snd (db_Save d config)))"
    and q: "query_fault d' = None"
  shows "db_First_where d' (Namespace config) (Key config) = Inr (fst (snd (db_Save d config)))"
proof -
  have sf: "save_fault d = None"
    using ok by (rule db_Save_ok_fault)
  note s = db_Save_live_row [OF id sf ex]
  have p: "live (config\<lparr>UpdatedAt := db_now d\<rparr>)
         \<and> Namespace (config\<lparr>UpdatedAt := db_now d\<rparr>) = Namespace config
         \<and> Key (config\<lparr>UpdatedAt := db_now d\<rparr>) = Key config"
    using lv by (simp add: live_def)
  have n: "\<forall>r \<in> set (rows d). \<not> (ID r = ID config \<and> live r) \<longrightarrow>
             \<not> (live r \<and> Namespace r = Namespace config \<and> Key r = Key config)"
  proof (intro ballI impI)
    fix r assume r: "r \<in> set (rows d)" and nq: "\<not> (ID r = ID config \<and> live r)"
    show "\<not> (live r \<and> Namespace r = Namespace config \<and> Key r = Key config)"
    proof (cases "live r")
      case False
      then show ?thesis by simp
    next
      case True
      with nq have "ID r \<noteq> ID config" by simp
      with un r True show ?thesis by simp
    qed
  qed
  have "find (\<lambda>r. live r \<and> Namespace r = Namespace config \<and> Key r = Key config)
          (map (\<lambda>r. if ID r = ID config \<and> live r then config\<lparr>UpdatedAt := db_now d\<rparr> else r)
             (rows d)) =
        Some (config\<lparr>UpdatedAt := db_now d\<rparr>)"
    using ex p n by (rule find_map_replace)
  then show ?thesis
    using same q by (simp add: db_First_where_def s)
qed

lemma UpdateConfiguration_set_ok:
  "fst (db_Save (db dao) config) = None \<Longrightarrow> redis dao = Some r \<Longrightarrow> set_fault r = None \<Longrightarrow>
   redis (snd (snd (UpdateConfiguration dao config))) =
     Some (r\<lparr>kv := (kv r)(cacheKey (Namespace config) (Key config) \<mapsto>
                          (Value config, now r + 5 * Minute))\<rparr>)
   \<and> log (snd (snd (UpdateConfiguration dao config))) = log dao"
  using db_Save_keeps_pair [of "db dao" config]
  by (cases "db_Save (db dao) config")
     (auto simp: UpdateConfiguration_def redis_Set_def Let_def)

lemma UpdateConfiguration_set_logged:
  "fst (db_Save (db dao) config) = None \<Longrightarrow> redis dao = Some r \<Longrightarrow> set_fault r = Some m \<Longrightarrow>
   log (snd (snd (UpdateConfiguration dao config))) =
     log dao @ [LogEntry WarnLevel ''Failed to update cache'' (Some (RedisError m))
                  [(''cache_key'', cacheKey (Namespace config) (Key config))]]"
  using db_Save_keeps_pair [of "db dao" config]
  by (cases "db_Save (db dao) config")
     (auto simp: UpdateConfiguration_def redis_Set_def Let_def)

lemma redis_Get_within_ttl:
  "kv r k = Some (v, expiry) \<Longrightarrow> now r < expiry \<Longrightarrow> get_fault r = None \<Longrightarrow>
   redis_Get r k = Inr v"
  by (simp add: redis_Get_def holds_def)

section \<open>The claims\<close>

text \<open>C1. For a pair whose composite cache key the cache does not hold, the fetch
  returns what the durable store returns for the pair and leaves the store as it was;
  after a successful durable read the value is written into the cache under the composite
  key with an expiry five minutes ahead; when that write fails the read still succeeds,
  the cache is as it was and the last log entry is the warning.\<close>

theorem fetch_absent_reads_store_and_populates:
  assumes "redis dao = Some r" and "holds r (cacheKey namespace key) = None"
  shows "fst (GetConfiguration dao namespace key) = db_First_where (db dao) namespace key
       \<and> db (snd (GetConfiguration dao namespace key)) = db dao
       \<and> (\<forall>found. db_First_where (db dao) namespace key = Inr found \<longrightarrow>
            (set_fault r = None \<longrightarrow>
               redis (snd (GetConfiguration dao namespace key)) =
                 Some (r\<lparr>kv := (kv r)(cacheKey namespace key \<mapsto> (Value found, now r + 5 * Minute))\<rparr>))
          \<and> (\<forall>m. set_fault r = Some m \<longrightarrow>
               redis (snd (GetConfiguration dao namespace key)) = Some r
             \<and> last (log (snd (GetConfiguration dao namespace key))) =
                 LogEntry WarnLevel ''Failed to cache configuration'' (Some (RedisError m))
                   [(''cache_key'', cacheKey namespace key)]))"
proof -
  have "\<exists>e. redis_Get r (cacheKey namespace key) = Inl e"
    using assms(2) by (cases "get_fault r") (simp_all add: redis_Get_def)
  then obtain e where e: "redis_Get r (cacheKey namespace key) = Inl e" ..
  have a: "fst (GetConfiguration dao namespace key) = db_First_where (db dao) namespace key"
    using assms(1) e by (rule GetConfiguration_fallthrough)
  have b: "db (snd (GetConfiguration dao namespace key)) = db dao"
    by (rule GetConfiguration_db)
  have c: "redis (snd (GetConfiguration dao namespace key)) =
             Some (r\<lparr>kv := (kv r)(cacheKey namespace key \<mapsto> (Value found, now r + 5 * Minute))\<rparr>)"
    if "db_First_where (db dao) namespace key = Inr found" "set_fault r = None" for found
    using GetConfiguration_populate [OF assms(1) e that(1)] that(2)
    by (simp add: redis_Set_def)
  have d: "redis (snd (GetConfiguration dao namespace key)) = Some r
         \<and> last (log (snd (GetConfiguration dao namespace key))) =
             LogEntry WarnLevel ''Failed to cache configuration'' (Some (RedisError m))
               [(''cache_key'', cacheKey namespace key)]"
    if "db_First_where (db dao) namespace key = Inr found" "set_fault r = Some m" for found m
    using assms(1) e that
    by (auto simp: GetConfiguration_def redis_Set_def split: sum.splits prod.splits option.splits)
  from a b c d show ?thesis by blast
qed

theorem fetch_absent_reads_store_and_populates_witness:
  "redis cold_dao = Some (cache_of Map.empty)
   \<and> holds (cache_of Map.empty) (cacheKey ''build'' ''timeout'') = None
   \<and> fst (GetConfiguration cold_dao ''build'' ''timeout'') = Inr timeout_row
   \<and> redis (snd (GetConfiguration cold_dao ''build'' ''timeout'')) =
       Some (cache_of [''config:build:timeout'' \<mapsto> (''30'', 300)])"
proof -
  have h1: "redis cold_dao = Some (cache_of Map.empty)"
    by (simp add: cold_dao_def)
  have h2: "holds (cache_of Map.empty) (cacheKey ''build'' ''timeout'') = None"
    by (simp add: holds_def cache_of_def)
  have f: "db_First_where (db cold_dao) ''build'' ''timeout'' = Inr timeout_row"
    by (simp add: db_First_where_def cold_dao_def store_of_def timeout_row_def live_def)
  show ?thesis
    using fetch_absent_reads_store_and_populates [OF h1 h2] h1 h2 f
    by (simp add: cache_of_def cacheKey_def Minute_def timeout_row_def)
qed

text \<open>C2. When the cache get returns an error other than the miss sentinel, the fetch
  returns what the durable store returns: the row whenever the store holds a live row for
  the pair and its query does not fail. The cache error is not the result; it is logged as
  a warning.\<close>

theorem fetch_survives_cache_error:
  assumes "redis dao = Some r"
    and "redis_Get r (cacheKey namespace key) = Inl err"
    and "err \<noteq> RedisNil"
  shows "fst (GetConfiguration dao namespace key) = db_First_where (db dao) namespace key
       \<and> fst (GetConfiguration dao namespace key) \<noteq> Inl err
       \<and> (\<forall>row. query_fault (db dao) = None
              \<and> find (\<lambda>r. live r \<and> Namespace r = namespace \<and> Key r = key) (rows (db dao)) = Some row
            \<longrightarrow> fst (GetConfiguration dao namespace key) = Inr row)
       \<and> LogEntry WarnLevel ''Redis get failed, falling back to database'' (Some err)
            [(''cache_key'', cacheKey namespace key)]
          \<in> set (log (snd (GetConfiguration dao namespace key)))"
proof -
  have a: "fst (GetConfiguration dao namespace key) = db_First_where (db dao) namespace key"
    using assms(1,2) by (rule GetConfiguration_fallthrough)
  obtain m where m: "err = RedisError m"
    using redis_Get_Inl [OF assms(2)] assms(3) by blast
  have b: "fst (GetConfiguration dao namespace key) \<noteq> Inl err"
  proof
    assume "fst (GetConfiguration dao namespace key) = Inl err"
    then have "db_First_where (db dao) namespace key = Inl (RedisError m)"
      using a m by simp
    from db_First_where_Inl [OF this] show False by simp
  qed
  have c: "fst (GetConfiguration dao namespace key) = Inr row"
    if "query_fault (db dao) = None"
      "find (\<lambda>r. live r \<and> Namespace r = namespace \<and> Key r = key) (rows (db dao)) = Some row"
    for row
    using a that by (simp add: db_First_where_def)
  from a b c GetConfiguration_warns [OF assms] show ?thesis by blast
qed

theorem fetch_survives_cache_error_witness:
  "redis broken_get_dao = Some ((cache_of Map.empty)\<lparr>get_fault := Some ''i/o timeout''\<rparr>)
   \<and> redis_Get ((cache_of Map.empty)\<lparr>get_fault := Some ''i/o timeout''\<rparr>)
        (cacheKey ''build'' ''timeout'') = Inl (RedisError ''i/o timeout'')
   \<and> RedisError ''i/o timeout'' \<noteq> RedisNil
   \<and> fst (GetConfiguration broken_get_dao ''build'' ''timeout'') = Inr timeout_row"
proof -
  have h1: "redis broken_get_dao = Some ((cache_of Map.empty)\<lparr>get_fault := Some ''i/o timeout''\<rparr>)"
    by (simp add: broken_get_dao_def)
  have h2: "redis_Get ((cache_of Map.empty)\<lparr>get_fault := Some ''i/o timeout''\<rparr>)
        (cacheKey ''build'' ''timeout'') = Inl (RedisError ''i/o timeout'')"
    by (simp add: redis_Get_def cache_of_def)
  have h3: "RedisError ''i/o timeout'' \<noteq> RedisNil"
    by simp
  have f: "db_First_where (db broken_get_dao) ''build'' ''timeout'' = Inr timeout_row"
    by (simp add: db_First_where_def broken_get_dao_def store_of_def timeout_row_def live_def)
  show ?thesis
    using fetch_survives_cache_error [OF h1 h2 h3] h1 h2 f by simp
qed

text \<open>C6. On a cache hit, \<open>GetConfiguration\<close> and \<open>GetSpecificConfiguration\<close> return a
  record whose value is the cached string and whose namespace and key are the arguments;
  identifier, description, timestamps and tombstone are zero. Nothing is read from or
  written to the store, the cache or the log.\<close>

theorem cache_hit_synthesises_record:
  assumes "redis dao = Some r"
    and "redis_Get r (cacheKey namespace key) = Inr cached"
  shows "GetConfiguration dao namespace key =
           (Inr \<lparr>ID = 0, Namespace = namespace, Key = key, Value = cached, Description = [],
                 CreatedAt = 0, UpdatedAt = 0, DeletedAt = None\<rparr>, dao)
       \<and> GetSpecificConfiguration dao namespace key =
           (Inr \<lparr>ID = 0, Namespace = namespace, Key = key, Value = cached, Description = [],
                 CreatedAt = 0, UpdatedAt = 0, DeletedAt = None\<rparr>, dao)"
  using assms
  by (simp add: GetSpecificConfiguration_eq GetConfiguration_hit zero_Configuration_def)

theorem cache_hit_synthesises_record_witness:
  "redis warm_dao = Some (cache_of [''config:build:timeout'' \<mapsto> (''30'', 300)])
   \<and> redis_Get (cache_of [''config:build:timeout'' \<mapsto> (''30'', 300)])
        (cacheKey ''build'' ''timeout'') = Inr ''30''
   \<and> GetConfiguration warm_dao ''build'' ''timeout'' =
        (Inr \<lparr>ID = 0, Namespace = ''build'', Key = ''timeout'', Value = ''30'',
              Description = [], CreatedAt = 0, UpdatedAt = 0, DeletedAt = None\<rparr>, warm_dao)"
proof -
  have h1: "redis warm_dao = Some (cache_of [''config:build:timeout'' \<mapsto> (''30'', 300)])"
    by (simp add: warm_dao_def)
  have h2: "redis_Get (cache_of [''config:build:timeout'' \<mapsto> (''30'', 300)])
        (cacheKey ''build'' ''timeout'') = Inr ''30''"
    by (simp add: redis_Get_def holds_def cache_of_def cacheKey_def)
  show ?thesis
    using cache_hit_synthesises_record [OF h1 h2] h1 h2 by simp
qed

text \<open>C7. \<open>DeleteConfiguration\<close> looks the record up by its identifier first. When the
  lookup fails (in particular when no live row has the identifier) it returns the lookup
  error and the whole state is as before: no delete is issued, the cache is not touched.
  When the lookup succeeds and the soft delete fails, that error is returned and the state
  is as before. When both succeed, the live row with the identifier gets its tombstone,
  a later lookup by the identifier finds nothing, and the cache entry under the composite
  key of the record is deleted; a failure of that deletion is logged only.\<close>

theorem delete_looks_up_then_deletes_then_invalidates:
  "(\<forall>err. db_First_id (db dao) i = Inl err \<longrightarrow> DeleteConfiguration dao i = (Some err, dao))
 \<and> (query_fault (db dao) = None \<and> (\<forall>row \<in> set (rows (db dao)). ID row = i \<longrightarrow> \<not> live row)
      \<longrightarrow> DeleteConfiguration dao i = (Some ErrRecordNotFound, dao))
 \<and> (\<forall>config. db_First_id (db dao) i = Inr config \<longrightarrow>
       (\<forall>m. delete_fault (db dao) = Some m \<longrightarrow>
          DeleteConfiguration dao i = (Some (DBError m), dao))
     \<and> (delete_fault (db dao) = None \<longrightarrow>
          fst (DeleteConfiguration dao i) = None
        \<and> db (snd (DeleteConfiguration dao i)) = (db dao)\<lparr>rows := tombstone (db dao) i\<rparr>
        \<and> db_First_id (db (snd (DeleteConfiguration dao i))) i = Inl ErrRecordNotFound
        \<and> (redis dao = None \<longrightarrow>
             redis (snd (DeleteConfiguration dao i)) = None
           \<and> log (snd (DeleteConfiguration dao i)) = log dao)
        \<and> (\<forall>r. redis dao = Some r \<longrightarrow>
             (del_fault r = None \<longrightarrow>
                redis (snd (DeleteConfiguration dao i)) =
                  Some (r\<lparr>kv := (kv r)(cacheKey (Namespace config) (Key config) := None)\<rparr>)
              \<and> log (snd (DeleteConfiguration dao i)) = log dao)
           \<and> (\<forall>m. del_fault r = Some m \<longrightarrow>
                redis (snd (DeleteConfiguration dao i)) = Some r
              \<and> log (snd (DeleteConfiguration dao i)) =
                  log dao @ [LogEntry WarnLevel ''Failed to invalidate cache''
                               (Some (RedisError m))
                               [(''cache_key'', cacheKey (Namespace config) (Key config))]]))))"
proof -
  have gone: "db_First_id (db (snd (DeleteConfiguration dao i))) i = Inl ErrRecordNotFound"
    if "db_First_id (db dao) i = Inr config" "delete_fault (db dao) = None" for config
  proof -
    have q: "query_fault (db dao) = None"
      using that(1) by (auto simp: db_First_id_def split: option.splits)
    show ?thesis
      using DeleteConfiguration_store [OF that] q
      by (simp add: db_First_id_def tombstone_def tombstone_gone)
  qed
  have absent: "DeleteConfiguration dao i = (Some ErrRecordNotFound, dao)"
    if "query_fault (db dao) = None \<and> (\<forall>row \<in> set (rows (db dao)). ID row = i \<longrightarrow> \<not> live row)"
    using that db_First_id_absent [of "db dao" i] DeleteConfiguration_lookup_fails [of dao i]
    by simp
  show ?thesis
  proof (intro conjI allI impI)
    fix err assume "db_First_id (db dao) i = Inl err"
    then show "DeleteConfiguration dao i = (Some err, dao)"
      by (rule DeleteConfiguration_lookup_fails)
  next
    assume "query_fault (db dao) = None \<and> (\<forall>row \<in> set (rows (db dao)). ID row = i \<longrightarrow> \<not> live row)"
    then show "DeleteConfiguration dao i = (Some ErrRecordNotFound, dao)"
      by (rule absent)
  next
    fix config m
    assume "db_First_id (db dao) i = Inr config" "delete_fault (db dao) = Some m"
    then show "DeleteConfiguration dao i = (Some (DBError m), dao)"
      by (rule DeleteConfiguration_delete_fails)
  next
    fix config
    assume a: "db_First_id (db dao) i = Inr config" "delete_fault (db dao) = None"
    show "fst (DeleteConfiguration dao i) = None"
      using DeleteConfiguration_store [OF a] by simp
    show "db (snd (DeleteConfiguration dao i)) = (db dao)\<lparr>rows := tombstone (db dao) i\<rparr>"
      using DeleteConfiguration_store [OF a] by simp
    show "db_First_id (db (snd (DeleteConfiguration dao i))) i = Inl ErrRecordNotFound"
      using a by (rule gone)
    {
      assume n: "redis dao = None"
      show "redis (snd (DeleteConfiguration dao i)) = None"
        using DeleteConfiguration_nil [OF a n] by simp
      show "log (snd (DeleteConfiguration dao i)) = log dao"
        using DeleteConfiguration_nil [OF a n] by simp
    }
    fix r
    assume r: "redis dao = Some r"
    {
      assume d: "del_fault r = None"
      show "redis (snd (DeleteConfiguration dao i)) =
              Some (r\<lparr>kv := (kv r)(cacheKey (Namespace config) (Key config) := None)\<rparr>)"
        using DeleteConfiguration_cache [OF a r d] by simp
      show "log (snd (DeleteConfiguration dao i)) = log dao"
        using DeleteConfiguration_cache [OF a r d] by simp
    }
    fix m
    assume d: "del_fault r = Some m"
    show "redis (snd (DeleteConfiguration dao i)) = Some r"
      using DeleteConfiguration_cache_fails [OF a r d] by simp
    show "log (snd (DeleteConfiguration dao i)) =
            log dao @ [LogEntry WarnLevel ''Failed to invalidate cache''
                         (Some (RedisError m))
                         [(''cache_key'', cacheKey (Namespace config) (Key config))]]"
      using DeleteConfiguration_cache_fails [OF a r d] by simp
  qed
qed

theorem delete_looks_up_then_deletes_then_invalidates_witness:
  "DeleteConfiguration served_dao 2 = (Some ErrRecordNotFound, served_dao)
 \<and> db_First_id (db served_dao) 1 = Inr timeout_row
 \<and> fst (DeleteConfiguration served_dao 1) = None
 \<and> rows (db (snd (DeleteConfiguration served_dao 1))) = [timeout_row\<lparr>DeletedAt := Some 0\<rparr>]
 \<and> redis (snd (DeleteConfiguration served_dao 1)) = Some (cache_of Map.empty)"
proof -
  have l2: "db_First_id (db served_dao) 2 = Inl ErrRecordNotFound"
    by (simp add: db_First_id_def served_dao_def store_of_def timeout_row_def live_def)
  have l1: "db_First_id (db served_dao) 1 = Inr timeout_row"
    by (simp add: db_First_id_def served_dao_def store_of_def timeout_row_def live_def)
  have df: "delete_fault (db served_dao) = None"
    by (simp add: served_dao_def store_of_def)
  have r: "redis served_dao = Some (cache_of [''config:build:timeout'' \<mapsto> (''30'', 300)])"
    by (simp add: served_dao_def)
  have d: "del_fault (cache_of [''config:build:timeout'' \<mapsto> (''30'', 300)]) = None"
    by (simp add: cache_of_def)
  have t: "tombstone (db served_dao) 1 = [timeout_row\<lparr>DeletedAt := Some 0\<rparr>]"
    by (simp add: tombstone_def served_dao_def store_of_def timeout_row_def live_def)
  have k: "cacheKey (Namespace timeout_row) (Key timeout_row) = ''config:build:timeout''"
    by (simp add: cacheKey_def timeout_row_def)
  show ?thesis
    using delete_looks_up_then_deletes_then_invalidates [of served_dao 2]
      delete_looks_up_then_deletes_then_invalidates [of served_dao 1] l1 l2 df r d t k
    by (simp add: cache_of_def)
qed

text \<open>C8. The service reads the pair before it inserts, but it proceeds to the insert on
  every error of that read, not only when the read finds nothing. For a request that passes
  validation, when the read fails with a store error and the store accepts the insert, the
  service returns the inserted record as a success, the table gains that record, and the
  number of live rows for the pair grows by one, whatever the table held.\<close>

theorem service_create_inserts_after_failed_read:
  assumes "data ''namespace'' = Some (IString ns)" and "ns \<noteq> []"
    and "data ''key'' = Some (IString k)" and "k \<noteq> []"
    and "fst (GetSpecificConfiguration (configDAO s) ns k) = Inl (DBError m)"
    and "fst (db_Create (db (configDAO s)) (requested data t1 t2)) = None"
  shows "fst (svc_CreateConfiguration s t1 t2 data) =
           Inr (fst (snd (db_Create (db (configDAO s)) (requested data t1 t2))))
       \<and> rows (db (configDAO (snd (svc_CreateConfiguration s t1 t2 data)))) =
           rows (db (configDAO s)) @
             [fst (snd (db_Create (db (configDAO s)) (requested data t1 t2)))]
       \<and> length (filter (\<lambda>r. live r \<and> Namespace r = ns \<and> Key r = k)
                  (rows (db (configDAO (snd (svc_CreateConfiguration s t1 t2 data)))))) =
           Suc (length (filter (\<lambda>r. live r \<and> Namespace r = ns \<and> Key r = k)
                          (rows (db (configDAO s)))))"
proof -
  let ?req = "requested data t1 t2"
  let ?c = "fst (snd (db_Create (db (configDAO s)) ?req))"
  obtain dao1 where d: "GetSpecificConfiguration (configDAO s) ns k = (Inl (DBError m), dao1)"
    using assms(5) by (cases "GetSpecificConfiguration (configDAO s) ns k") simp
  have db1: "db dao1 = db (configDAO s)"
    using GetSpecificConfiguration_db [of "configDAO s" ns k] d by simp
  note i = svc_CreateConfiguration_insert [OF assms(1-4) d, of t1 t2]
  note c = CreateConfiguration_store [of dao1 ?req]
  have r: "fst (svc_CreateConfiguration s t1 t2 data) = Inr ?c"
    using i c assms(6) by (simp add: db1)
  have "db (configDAO (snd (svc_CreateConfiguration s t1 t2 data))) =
          snd (snd (db_Create (db (configDAO s)) ?req))"
    using i c by (simp add: db1)
  then have t: "rows (db (configDAO (snd (svc_CreateConfiguration s t1 t2 data)))) =
                  rows (db (configDAO s)) @ [?c]"
    using db_Create_fresh [OF assms(6) requested_ID] by simp
  have p: "live ?c \<and> Namespace ?c = ns \<and> Key ?c = k"
    using db_Create_keeps_pair [of "db (configDAO s)" ?req] requested_pair [OF assms(1,3), of t1 t2]
    by (simp add: live_def)
  show ?thesis
    using r t p by simp
qed

theorem service_create_inserts_after_failed_read_witness:
  "fst (GetSpecificConfiguration (configDAO failing_read_service) ''build'' ''timeout'') =
     Inl (DBError ''i/o timeout'')
 \<and> rows (db (configDAO failing_read_service)) = [timeout_row]
 \<and> fst (svc_CreateConfiguration failing_read_service 5 6 timeout_request) =
     Inr \<lparr>ID = 2, Namespace = ''build'', Key = ''timeout'', Value = ''30'', Description = [],
          CreatedAt = 5, UpdatedAt = 6, DeletedAt = None\<rparr>
 \<and> rows (db (configDAO (snd (svc_CreateConfiguration failing_read_service 5 6
                               timeout_request)))) =
     [timeout_row,
      \<lparr>ID = 2, Namespace = ''build'', Key = ''timeout'', Value = ''30'', Description = [],
       CreatedAt = 5, UpdatedAt = 6, DeletedAt = None\<rparr>]"
proof -
  have v1: "timeout_request ''namespace'' = Some (IString ''build'')"
    by (simp add: timeout_request_def)
  have v2: "''build'' \<noteq> []" by simp
  have v3: "timeout_request ''key'' = Some (IString ''timeout'')"
    by (simp add: timeout_request_def)
  have v4: "''timeout'' \<noteq> []" by simp
  have g: "fst (GetSpecificConfiguration (configDAO failing_read_service)
                  ''build'' ''timeout'') = Inl (DBError ''i/o timeout'')"
    by (simp add: GetSpecificConfiguration_eq GetConfiguration_def failing_read_service_def
          redis_Get_def holds_def cache_of_def db_First_where_def store_of_def)
  have r: "rows (db (configDAO failing_read_service)) = [timeout_row]"
    by (simp add: failing_read_service_def store_of_def)
  have q: "requested timeout_request 5 6 =
             \<lparr>ID = 0, Namespace = ''build'', Key = ''timeout'', Value = ''30'',
              Description = [], CreatedAt = 5, UpdatedAt = 6, DeletedAt = None\<rparr>"
    by (simp add: requested_def timeout_request_def assert_string_def zero_Configuration_def)
  have c: "db_Create (db (configDAO failing_read_service)) (requested timeout_request 5 6) =
             (None,
              \<lparr>ID = 2, Namespace = ''build'', Key = ''timeout'', Value = ''30'',
               Description = [], CreatedAt = 5, UpdatedAt = 6, DeletedAt = None\<rparr>,
              (db (configDAO failing_read_service))
                \<lparr>rows := [timeout_row,
                   \<lparr>ID = 2, Namespace = ''build'', Key = ''timeout'', Value = ''30'',
                    Description = [], CreatedAt = 5, UpdatedAt = 6, DeletedAt = None\<rparr>]\<rparr>)"
    unfolding q
    by (simp add: db_Create_def stamp_new_def fresh_id_def failing_read_service_def
          store_of_def timeout_row_def Let_def)
  have ok: "fst (db_Create (db (configDAO failing_read_service))
                   (requested timeout_request 5 6)) = None"
    by (simp add: c)
  show ?thesis
    using service_create_inserts_after_failed_read [OF v1 v2 v3 v4 g ok] g r
    by (simp add: c)
qed

text \<open>C9. The duplicate check goes through the cache-aware lookup. For a request that
  passes validation, when the cache get for the pair returns a value, whatever the store
  holds, the service returns the conflict error and nothing else happens: the store, the
  cache and both logs are as before.\<close>

theorem service_create_conflicts_on_cached_value:
  assumes "data ''namespace'' = Some (IString ns)" and "ns \<noteq> []"
    and "data ''key'' = Some (IString k)" and "k \<noteq> []"
    and "redis (configDAO s) = Some r"
    and "redis_Get r (cacheKey ns k) = Inr v"
  shows "svc_CreateConfiguration s t1 t2 data =
           (Inl (ConflictError ''configuration already exists''), s)"
proof -
  have "GetSpecificConfiguration (configDAO s) ns k =
          (Inr (zero_Configuration\<lparr>Value := v, Namespace := ns, Key := k\<rparr>), configDAO s)"
    using assms(5,6) by (simp add: GetSpecificConfiguration_eq GetConfiguration_hit)
  from svc_CreateConfiguration_conflict [OF assms(1-4) this] show ?thesis by simp
qed

theorem service_create_conflicts_on_cached_value_witness:
  "timeout_request ''namespace'' = Some (IString ''build'') \<and> ''build'' \<noteq> []
 \<and> timeout_request ''key'' = Some (IString ''timeout'') \<and> ''timeout'' \<noteq> []
 \<and> redis (configDAO stale_service) =
      Some (cache_of [''config:build:timeout'' \<mapsto> (''30'', 300)])
 \<and> redis_Get (cache_of [''config:build:timeout'' \<mapsto> (''30'', 300)])
      (cacheKey ''build'' ''timeout'') = Inr ''30''
 \<and> rows (db (configDAO stale_service)) = []
 \<and> svc_CreateConfiguration stale_service 5 6 timeout_request =
      (Inl (ConflictError ''configuration already exists''), stale_service)"
proof -
  have v1: "timeout_request ''namespace'' = Some (IString ''build'')"
    by (simp add: timeout_request_def)
  have v2: "''build'' \<noteq> []" by simp
  have v3: "timeout_request ''key'' = Some (IString ''timeout'')"
    by (simp add: timeout_request_def)
  have v4: "''timeout'' \<noteq> []" by simp
  have h1: "redis (configDAO stale_service) =
              Some (cache_of [''config:build:timeout'' \<mapsto> (''30'', 300)])"
    by (simp add: stale_service_def warm_dao_def)
  have h2: "redis_Get (cache_of [''config:build:timeout'' \<mapsto> (''30'', 300)])
              (cacheKey ''build'' ''timeout'') = Inr ''30''"
    by (simp add: redis_Get_def holds_def cache_of_def cacheKey_def)
  have e: "rows (db (configDAO stale_service)) = []"
    by (simp add: stale_service_def warm_dao_def store_of_def)
  show ?thesis
    using service_create_conflicts_on_cached_value [OF v1 v2 v3 v4 h1 h2, of 5 6] v1 v3 h1 h2 e
    by simp
qed

text \<open>C10. The composite cache key is not injective: moving a delimiter from the key into
  the namespace gives the same cache key, as for the distinct pairs \<open>(a, b:c)\<close> and
  \<open>(a:b, c)\<close>. After a fetch of \<open>(a, b:c)\<close> has cached its value, a fetch of
  \<open>(a:b, c)\<close>, for which the store has no row, is a cache hit with that value; and a
  create for \<open>(a:b, c)\<close> deletes the entry cached for \<open>(a, b:c)\<close>.\<close>

theorem cacheKey_not_injective:
  "cacheKey ''a'' ''b:c'' = cacheKey ''a:b'' ''c''
 \<and> (''a'', ''b:c'') \<noteq> (''a:b'', ''c'')
 \<and> (\<forall>ns k x. cacheKey ns (k @ '':'' @ x) = cacheKey (ns @ '':'' @ k) x)
 \<and> \<not> inj (\<lambda>(ns, k). cacheKey ns k)
 \<and> db_First_where (db colon_dao) ''a:b'' ''c'' = Inl ErrRecordNotFound
 \<and> fst (GetConfiguration colon_dao ''a:b'' ''c'') = Inl ErrRecordNotFound
 \<and> fst (GetConfiguration (snd (GetConfiguration colon_dao ''a'' ''b:c'')) ''a:b'' ''c'') =
     Inr \<lparr>ID = 0, Namespace = ''a:b'', Key = ''c'', Value = ''v'', Description = [],
          CreatedAt = 0, UpdatedAt = 0, DeletedAt = None\<rparr>
 \<and> redis (snd (GetConfiguration colon_dao ''a'' ''b:c'')) =
     Some (cache_of [cacheKey ''a'' ''b:c'' \<mapsto> (''v'', 300)])
 \<and> redis (snd (snd (CreateConfiguration (snd (GetConfiguration colon_dao ''a'' ''b:c''))
                      other_row))) =
     Some (cache_of Map.empty)"
proof -
  have e: "cacheKey ''a'' ''b:c'' = cacheKey ''a:b'' ''c''"
    by (simp add: cacheKey_def)
  have n: "\<not> inj (\<lambda>(ns, k). cacheKey ns k)"
  proof
    assume "inj (\<lambda>(ns, k). cacheKey ns k)"
    then have "(''a'', ''b:c'') = (''a:b'', ''c'')"
      using e by (auto dest!: injD [where x = "(''a'', ''b:c'')" and y = "(''a:b'', ''c'')"])
    then show False by simp
  qed
  have m: "db_First_where (db colon_dao) ''a:b'' ''c'' = Inl ErrRecordNotFound"
    by (simp add: db_First_where_def colon_dao_def store_of_def colon_row_def)
  have m': "fst (GetConfiguration colon_dao ''a:b'' ''c'') = Inl ErrRecordNotFound"
    using GetConfiguration_fallthrough [of colon_dao "cache_of Map.empty" "''a:b''" "''c''" RedisNil] m
    by (simp add: colon_dao_def redis_Get_def holds_def cache_of_def)
  show ?thesis
    using e n m m'
    by (simp add: colon_dao_fetch colon_dao_other_hit colon_dao_other_create cacheKey_shift)
       (simp add: cacheKey_def)
qed

text \<open>C3, as stated, fails in two ways. Through the service, without any fault: the cache
  holds the older value \<open>10\<close> for the pair and the store holds no row; the create of value
  \<open>30\<close> returns the conflict error, nothing is inserted or invalidated, and the fetch that
  follows is a cache hit with \<open>10\<close>. Through the DAO, when the cache refuses the delete
  command: the create succeeds and inserts the row, and the fetch that follows is a cache
  hit with \<open>10\<close>.\<close>

theorem create_then_fetch_stale_counterexample:
  "timeout_request ''value'' = Some (IString ''30'')
 \<and> svc_CreateConfiguration outdated_service 5 6 timeout_request =
     (Inl (ConflictError ''configuration already exists''), outdated_service)
 \<and> fst (GetConfiguration
          (configDAO (snd (svc_CreateConfiguration outdated_service 5 6 timeout_request)))
          ''build'' ''timeout'') =
     Inr \<lparr>ID = 0, Namespace = ''build'', Key = ''timeout'', Value = ''10'', Description = [],
          CreatedAt = 0, UpdatedAt = 0, DeletedAt = None\<rparr>
 \<and> Value new_timeout = ''30''
 \<and> fst (CreateConfiguration stale_del_dao new_timeout) = None
 \<and> rows (db (snd (snd (CreateConfiguration stale_del_dao new_timeout)))) =
     [new_timeout\<lparr>ID := 1, CreatedAt := 50, UpdatedAt := 50\<rparr>]
 \<and> fst (GetConfiguration (snd (snd (CreateConfiguration stale_del_dao new_timeout)))
          ''build'' ''timeout'') =
     Inr \<lparr>ID = 0, Namespace = ''build'', Key = ''timeout'', Value = ''10'', Description = [],
          CreatedAt = 0, UpdatedAt = 0, DeletedAt = None\<rparr>"
proof -
  have h: "GetConfiguration stale_dao ''build'' ''timeout'' =
             (Inr \<lparr>ID = 0, Namespace = ''build'', Key = ''timeout'', Value = ''10'',
                   Description = [], CreatedAt = 0, UpdatedAt = 0, DeletedAt = None\<rparr>,
              stale_dao)"
    by (simp add: GetConfiguration_def stale_dao_def redis_Get_def holds_def cache_of_def
          cacheKey_def zero_Configuration_def)
  have v: "timeout_request ''namespace'' = Some (IString ''build'')"
          "timeout_request ''key'' = Some (IString ''timeout'')"
          "timeout_request ''value'' = Some (IString ''30'')"
    by (simp_all add: timeout_request_def)
  have g: "GetSpecificConfiguration (configDAO outdated_service) ''build'' ''timeout'' =
             (Inr \<lparr>ID = 0, Namespace = ''build'', Key = ''timeout'', Value = ''10'',
                   Description = [], CreatedAt = 0, UpdatedAt = 0, DeletedAt = None\<rparr>,
              configDAO outdated_service)"
    using h by (simp add: GetSpecificConfiguration_eq outdated_service_def)
  have s: "svc_CreateConfiguration outdated_service 5 6 timeout_request =
             (Inl (ConflictError ''configuration already exists''), outdated_service)"
    using svc_CreateConfiguration_conflict [OF v(1) _ v(2) _ g, of 5 6] by simp
  have c: "CreateConfiguration stale_del_dao new_timeout =
             (None, new_timeout\<lparr>ID := 1, CreatedAt := 50, UpdatedAt := 50\<rparr>,
              \<lparr>db = (store_of [new_timeout\<lparr>ID := 1, CreatedAt := 50, UpdatedAt := 50\<rparr>])
                      \<lparr>db_now := 50\<rparr>,
               redis = Some ((cache_of [''config:build:timeout'' \<mapsto> (''10'', 300)])
                               \<lparr>del_fault := Some ''connection refused''\<rparr>),
               log = [LogEntry WarnLevel ''Failed to invalidate cache''
                        (Some (RedisError ''connection refused''))
                        [(''cache_key'', ''config:build:timeout'')]]\<rparr>)"
    by (simp add: CreateConfiguration_def stale_del_dao_def db_Create_def stamp_new_def
          store_of_def new_timeout_def zero_Configuration_def Let_def fresh_id_def
          redis_Del_def cache_of_def cacheKey_def Warn_def)
  have f: "fst (GetConfiguration (snd (snd (CreateConfiguration stale_del_dao new_timeout)))
                 ''build'' ''timeout'') =
             Inr \<lparr>ID = 0, Namespace = ''build'', Key = ''timeout'', Value = ''10'',
                  Description = [], CreatedAt = 0, UpdatedAt = 0, DeletedAt = None\<rparr>"
    unfolding c
    by (simp add: GetConfiguration_def redis_Get_def holds_def cache_of_def cacheKey_def
          zero_Configuration_def)
  have n: "Value new_timeout = ''30''"
    by (simp add: new_timeout_def)
  show ?thesis
    unfolding s using v(3) h f n by (simp add: c outdated_service_def store_of_def)
qed

text \<open>C3, amended. \<open>CreateConfiguration\<close> of the DAO inserts first; when the insert fails it
  returns that error and the state is as before. When the insert succeeds it returns
  success and then deletes the cache entry under the composite key of the entry; a failure
  of that deletion is logged as a warning and not returned. When the deletion succeeds,
  the key is absent from the cache and the log is as before, so the fetch that follows is
  answered by the store and not by the cache; it returns the record the create returned
  when the store held no live row for the pair before and its query does not fail.
  The create of the service, for a request that passes validation: when the cache get for
  the pair returns a value, the service returns the conflict error with the state as
  before, and the fetch that follows returns that cached value; when the service create
  succeeds and the cache accepts the delete command, the fetch that follows is answered
  by the store.\<close>

theorem create_invalidates_then_fetch_reads_store:
  "(\<forall>e. fst (db_Create (db dao) config) = Some e \<longrightarrow>
      fst (CreateConfiguration dao config) = Some e
    \<and> snd (snd (CreateConfiguration dao config)) = dao)
 \<and> (fst (db_Create (db dao) config) = None \<longrightarrow>
      fst (CreateConfiguration dao config) = None
    \<and> db (snd (snd (CreateConfiguration dao config))) = snd (snd (db_Create (db dao) config))
    \<and> (\<forall>r. redis dao = Some r \<longrightarrow>
         (del_fault r = None \<longrightarrow>
            redis (snd (snd (CreateConfiguration dao config))) =
              Some (r\<lparr>kv := (kv r)(cacheKey (Namespace config) (Key config) := None)\<rparr>)
          \<and> log (snd (snd (CreateConfiguration dao config))) = log dao
          \<and> fst (GetConfiguration (snd (snd (CreateConfiguration dao config)))
                   (Namespace config) (Key config)) =
              db_First_where (db (snd (snd (CreateConfiguration dao config))))
                (Namespace config) (Key config)
          \<and> ((\<forall>row \<in> set (rows (db dao)).
                  \<not> (live row \<and> Namespace row = Namespace config \<and> Key row = Key config))
              \<and> live config \<and> query_fault (db dao) = None \<longrightarrow>
              fst (GetConfiguration (snd (snd (CreateConfiguration dao config)))
                    (Namespace config) (Key config)) =
                Inr (fst (snd (CreateConfiguration dao config)))))
       \<and> (\<forall>m. del_fault r = Some m \<longrightarrow>
            log (snd (snd (CreateConfiguration dao config))) =
              log dao @ [LogEntry WarnLevel ''Failed to invalidate cache''
                           (Some (RedisError m))
                           [(''cache_key'', cacheKey (Namespace config) (Key config))]])))
 \<and> (data ''namespace'' = Some (IString ns) \<and> ns \<noteq> []
      \<and> data ''key'' = Some (IString k) \<and> k \<noteq> [] \<longrightarrow>
      (\<forall>r v. redis (configDAO s) = Some r \<and> redis_Get r (cacheKey ns k) = Inr v \<longrightarrow>
         svc_CreateConfiguration s t1 t2 data =
           (Inl (ConflictError ''configuration already exists''), s)
       \<and> GetConfiguration (configDAO (snd (svc_CreateConfiguration s t1 t2 data))) ns k =
           (Inr (zero_Configuration\<lparr>Value := v, Namespace := ns, Key := k\<rparr>), configDAO s))
    \<and> (\<forall>r c. fst (svc_CreateConfiguration s t1 t2 data) = Inr c
              \<and> redis (configDAO s) = Some r \<and> del_fault r = None \<longrightarrow>
         fst (GetConfiguration (configDAO (snd (svc_CreateConfiguration s t1 t2 data))) ns k) =
           db_First_where (db (configDAO (snd (svc_CreateConfiguration s t1 t2 data)))) ns k))"
proof (intro conjI allI impI)
  fix e assume "fst (db_Create (db dao) config) = Some e"
  then show "fst (CreateConfiguration dao config) = Some e"
    and "snd (snd (CreateConfiguration dao config)) = dao"
    using CreateConfiguration_insert_fails [of dao config e] by simp_all
next
  assume ok: "fst (db_Create (db dao) config) = None"
  show "fst (CreateConfiguration dao config) = None"
    using CreateConfiguration_store [of dao config] ok by simp
  show st: "db (snd (snd (CreateConfiguration dao config))) = snd (snd (db_Create (db dao) config))"
    using CreateConfiguration_store [of dao config] by simp
  fix r assume r: "redis dao = Some r"
  {
    assume d: "del_fault r = None"
    show rd: "redis (snd (snd (CreateConfiguration dao config))) =
            Some (r\<lparr>kv := (kv r)(cacheKey (Namespace config) (Key config) := None)\<rparr>)"
      using CreateConfiguration_del_ok [OF ok r d] by simp
    show "log (snd (snd (CreateConfiguration dao config))) = log dao"
      using CreateConfiguration_del_ok [OF ok r d] by simp
    show rs: "fst (GetConfiguration (snd (snd (CreateConfiguration dao config)))
                (Namespace config) (Key config)) =
            db_First_where (db (snd (snd (CreateConfiguration dao config))))
              (Namespace config) (Key config)"
      by (rule fetch_after_invalidation [OF rd]) simp
    assume u: "(\<forall>row \<in> set (rows (db dao)).
                  \<not> (live row \<and> Namespace row = Namespace config \<and> Key row = Key config))
              \<and> live config \<and> query_fault (db dao) = None"
    have "db_First_where (snd (snd (db_Create (db dao) config)))
            (Namespace config) (Key config) =
          Inr (fst (snd (db_Create (db dao) config)))"
      using u ok by (intro db_First_where_created) simp_all
    then show "fst (GetConfiguration (snd (snd (CreateConfiguration dao config)))
                (Namespace config) (Key config)) =
            Inr (fst (snd (CreateConfiguration dao config)))"
      unfolding rs st using CreateConfiguration_store [of dao config] by simp
  }
  fix m assume d: "del_fault r = Some m"
  show "log (snd (snd (CreateConfiguration dao config))) =
          log dao @ [LogEntry WarnLevel ''Failed to invalidate cache''
                       (Some (RedisError m))
                       [(''cache_key'', cacheKey (Namespace config) (Key config))]]"
    using ok r d by (rule CreateConfiguration_del_logged)
next
  fix r v
  assume v: "data ''namespace'' = Some (IString ns) \<and> ns \<noteq> []
              \<and> data ''key'' = Some (IString k) \<and> k \<noteq> []"
    and h: "redis (configDAO s) = Some r \<and> redis_Get r (cacheKey ns k) = Inr v"
  have g: "GetConfiguration (configDAO s) ns k =
             (Inr (zero_Configuration\<lparr>Value := v, Namespace := ns, Key := k\<rparr>), configDAO s)"
    using h by (simp add: GetConfiguration_hit)
  then have "GetSpecificConfiguration (configDAO s) ns k =
             (Inr (zero_Configuration\<lparr>Value := v, Namespace := ns, Key := k\<rparr>), configDAO s)"
    by (simp add: GetSpecificConfiguration_eq)
  then show c: "svc_CreateConfiguration s t1 t2 data =
                  (Inl (ConflictError ''configuration already exists''), s)"
    using svc_CreateConfiguration_conflict [of data ns k s _ "configDAO s" t1 t2] v by simp
  show "GetConfiguration (configDAO (snd (svc_CreateConfiguration s t1 t2 data))) ns k =
          (Inr (zero_Configuration\<lparr>Value := v, Namespace := ns, Key := k\<rparr>), configDAO s)"
    unfolding c using g by simp
next
  fix r c
  assume v: "data ''namespace'' = Some (IString ns) \<and> ns \<noteq> []
              \<and> data ''key'' = Some (IString k) \<and> k \<noteq> []"
    and h: "fst (svc_CreateConfiguration s t1 t2 data) = Inr c
              \<and> redis (configDAO s) = Some r \<and> del_fault r = None"
  show "fst (GetConfiguration (configDAO (snd (svc_CreateConfiguration s t1 t2 data))) ns k) =
          db_First_where (db (configDAO (snd (svc_CreateConfiguration s t1 t2 data)))) ns k"
    using svc_CreateConfiguration_then_fetch [of data ns k s t1 t2 c r] v h by simp
qed

theorem create_invalidates_then_fetch_reads_store_witness:
  "fst (db_Create (db stale_dao) new_timeout) = None
 \<and> redis stale_dao = Some (cache_of [''config:build:timeout'' \<mapsto> (''10'', 300)])
 \<and> del_fault (cache_of [''config:build:timeout'' \<mapsto> (''10'', 300)]) = None
 \<and> db_now (db stale_dao) = 50
 \<and> redis (snd (snd (CreateConfiguration stale_dao new_timeout))) = Some (cache_of Map.empty)
 \<and> fst (GetConfiguration (snd (snd (CreateConfiguration stale_dao new_timeout)))
          ''build'' ''timeout'') =
     Inr \<lparr>ID = 1, Namespace = ''build'', Key = ''timeout'', Value = ''30'', Description = [],
          CreatedAt = 50, UpdatedAt = 50, DeletedAt = None\<rparr>
 \<and> svc_CreateConfiguration outdated_service 5 6 timeout_request =
     (Inl (ConflictError ''configuration already exists''), outdated_service)"
proof -
  have c: "db_Create (db stale_dao) new_timeout =
             (None,
              \<lparr>ID = 1, Namespace = ''build'', Key = ''timeout'', Value = ''30'',
               Description = [], CreatedAt = 50, UpdatedAt = 50, DeletedAt = None\<rparr>,
              (store_of [\<lparr>ID = 1, Namespace = ''build'', Key = ''timeout'', Value = ''30'',
                          Description = [], CreatedAt = 50, UpdatedAt = 50,
                          DeletedAt = None\<rparr>])\<lparr>db_now := 50\<rparr>)"
    by (simp add: db_Create_def stamp_new_def fresh_id_def stale_dao_def store_of_def
          new_timeout_def zero_Configuration_def Let_def)
  have ok: "fst (db_Create (db stale_dao) new_timeout) = None"
    by (simp add: c)
  have r: "redis stale_dao = Some (cache_of [''config:build:timeout'' \<mapsto> (''10'', 300)])"
    by (simp add: stale_dao_def)
  have d: "del_fault (cache_of [''config:build:timeout'' \<mapsto> (''10'', 300)]) = None"
    by (simp add: cache_of_def)
  have t: "db_now (db stale_dao) = 50"
    by (simp add: stale_dao_def)
  have u: "(\<forall>row \<in> set (rows (db stale_dao)).
              \<not> (live row \<and> Namespace row = Namespace new_timeout \<and> Key row = Key new_timeout))
          \<and> live new_timeout \<and> query_fault (db stale_dao) = None"
    by (simp add: stale_dao_def store_of_def new_timeout_def zero_Configuration_def live_def)
  have p: "Namespace new_timeout = ''build'' \<and> Key new_timeout = ''timeout''"
    by (simp add: new_timeout_def)
  have v: "timeout_request ''namespace'' = Some (IString ''build'') \<and> ''build'' \<noteq> []
         \<and> timeout_request ''key'' = Some (IString ''timeout'') \<and> ''timeout'' \<noteq> []"
    by (simp add: timeout_request_def)
  have h: "redis (configDAO outdated_service) =
             Some (cache_of [''config:build:timeout'' \<mapsto> (''10'', 300)])
         \<and> redis_Get (cache_of [''config:build:timeout'' \<mapsto> (''10'', 300)])
              (cacheKey ''build'' ''timeout'') = Inr ''10''"
    by (simp add: outdated_service_def stale_dao_def redis_Get_def holds_def cache_of_def
          cacheKey_def)
  note T = create_invalidates_then_fetch_reads_store
             [where dao = stale_dao and config = new_timeout and data = timeout_request
                and ns = "''build''" and k = "''timeout''" and s = outdated_service
                and ?t1.0 = 5 and ?t2.0 = 6]
  have a: "redis (snd (snd (CreateConfiguration stale_dao new_timeout))) =
             Some ((cache_of [''config:build:timeout'' \<mapsto> (''10'', 300)])
                     \<lparr>kv := (kv (cache_of [''config:build:timeout'' \<mapsto> (''10'', 300)]))
                              (cacheKey (Namespace new_timeout) (Key new_timeout) := None)\<rparr>)"
    using T ok r d by blast
  have b: "fst (GetConfiguration (snd (snd (CreateConfiguration stale_dao new_timeout)))
                 (Namespace new_timeout) (Key new_timeout)) =
             Inr (fst (snd (CreateConfiguration stale_dao new_timeout)))"
    using T ok r d u by blast
  have e: "svc_CreateConfiguration outdated_service 5 6 timeout_request =
             (Inl (ConflictError ''configuration already exists''), outdated_service)"
    using T v h by blast
  have f: "fst (snd (CreateConfiguration stale_dao new_timeout)) =
             \<lparr>ID = 1, Namespace = ''build'', Key = ''timeout'', Value = ''30'',
              Description = [], CreatedAt = 50, UpdatedAt = 50, DeletedAt = None\<rparr>"
    using CreateConfiguration_store [of stale_dao new_timeout] by (simp add: c)
  show ?thesis
    using ok r d t a b e
    by (simp add: p f) (simp add: cache_of_def cacheKey_def)
qed

text \<open>C4, as stated, fails in two ways. When the cache refuses the set command: the store
  holds the scenario entry with value \<open>30\<close> and the cache holds \<open>30\<close> for the pair; the
  update to \<open>60\<close> succeeds and the store holds \<open>60\<close>, and the fetch that follows, inside
  the window, is a cache hit with \<open>30\<close>. When the pair is not unique: the store holds two
  live rows for the pair, with values \<open>10\<close> and \<open>30\<close>; the update of the second row to
  \<open>60\<close> succeeds; a later fetch whose cache get fails is answered by the store with the
  first row, value \<open>10\<close>.\<close>

theorem update_then_fetch_stale_counterexample:
  "fst (UpdateConfiguration stale_set_dao changed_timeout) = None
 \<and> map Value (rows (db (snd (snd (UpdateConfiguration stale_set_dao changed_timeout))))) =
     [''60'']
 \<and> fst (GetConfiguration (snd (snd (UpdateConfiguration stale_set_dao changed_timeout)))
          ''build'' ''timeout'') =
     Inr \<lparr>ID = 0, Namespace = ''build'', Key = ''timeout'', Value = ''30'', Description = [],
          CreatedAt = 0, UpdatedAt = 0, DeletedAt = None\<rparr>
 \<and> fst (UpdateConfiguration twin_dao (newer_row\<lparr>Value := ''60''\<rparr>)) = None
 \<and> map Value (rows (db twin_later)) = [''10'', ''60'']
 \<and> fst (GetConfiguration twin_later ''build'' ''timeout'') = Inr older_row
 \<and> Value older_row = ''10''"
proof -
  have c: "UpdateConfiguration stale_set_dao changed_timeout =
             (None, changed_timeout\<lparr>UpdatedAt := 50\<rparr>,
              \<lparr>db = (store_of [changed_timeout\<lparr>UpdatedAt := 50\<rparr>])\<lparr>db_now := 50\<rparr>,
               redis = Some ((cache_of [''config:build:timeout'' \<mapsto> (''30'', 300)])
                               \<lparr>set_fault := Some ''connection refused''\<rparr>),
               log = [LogEntry WarnLevel ''Failed to update cache''
                        (Some (RedisError ''connection refused''))
                        [(''cache_key'', ''config:build:timeout'')]]\<rparr>)"
    by (simp add: UpdateConfiguration_def stale_set_dao_def db_Save_def live_def store_of_def
          changed_timeout_def timeout_row_def Let_def redis_Set_def
          cache_of_def cacheKey_def Warn_def)
  have f: "fst (GetConfiguration (snd (snd (UpdateConfiguration stale_set_dao changed_timeout)))
                 ''build'' ''timeout'') =
             Inr \<lparr>ID = 0, Namespace = ''build'', Key = ''timeout'', Value = ''30'',
                  Description = [], CreatedAt = 0, UpdatedAt = 0, DeletedAt = None\<rparr>"
    unfolding c
    by (simp add: GetConfiguration_def redis_Get_def holds_def cache_of_def cacheKey_def
          zero_Configuration_def)
  have t: "UpdateConfiguration twin_dao (newer_row\<lparr>Value := ''60''\<rparr>) =
             (None, newer_row\<lparr>Value := ''60'', UpdatedAt := 50\<rparr>,
              \<lparr>db = (store_of [older_row, newer_row\<lparr>Value := ''60'', UpdatedAt := 50\<rparr>])
                      \<lparr>db_now := 50\<rparr>,
               redis = Some (cache_of [''config:build:timeout'' \<mapsto> (''60'', 300)]),
               log = []\<rparr>)"
    by (simp add: UpdateConfiguration_def twin_dao_def db_Save_def live_def store_of_def
          older_row_def newer_row_def timeout_row_def Let_def redis_Set_def
          cache_of_def cacheKey_def Minute_def)
  have l: "twin_later =
             \<lparr>db = (store_of [older_row, newer_row\<lparr>Value := ''60'', UpdatedAt := 50\<rparr>])
                     \<lparr>db_now := 50\<rparr>,
              redis = Some ((cache_of [''config:build:timeout'' \<mapsto> (''60'', 300)])
                              \<lparr>get_fault := Some ''i/o timeout''\<rparr>),
              log = []\<rparr>"
    by (simp add: twin_later_def twin_updated_def t)
  have g: "fst (GetConfiguration twin_later ''build'' ''timeout'') = Inr older_row"
    unfolding l
    by (simp add: GetConfiguration_def redis_Get_def cache_of_def db_First_where_def
          store_of_def older_row_def newer_row_def timeout_row_def live_def Warn_def
          redis_Set_def split: prod.splits)
  have r: "map Value (rows (db twin_later)) = [''10'', ''60'']"
    unfolding l by (simp add: store_of_def older_row_def newer_row_def timeout_row_def)
  have o: "Value older_row = ''10''"
    by (simp add: older_row_def)
  have a: "fst (UpdateConfiguration stale_set_dao changed_timeout) = None
         \<and> map Value (rows (db (snd (snd (UpdateConfiguration stale_set_dao
                                              changed_timeout))))) = [''60'']"
    unfolding c by (simp add: store_of_def changed_timeout_def)
  have b: "fst (UpdateConfiguration twin_dao (newer_row\<lparr>Value := ''60''\<rparr>)) = None"
    unfolding t by simp
  show ?thesis
    using a b f g r o by simp
qed

text \<open>C4, amended. After \<open>UpdateConfiguration\<close> has persisted the entry and returned
  success, a later fetch of the pair returns the new value in two cases. First, the cache
  overwrite succeeded: the cache then holds the new value under the composite key with an
  expiry five minutes ahead, and in every later state whose cache still holds the entry
  the update wrote, whose clock is before that expiry and whose get command does not fail,
  the fetch returns the new value from the cache and changes nothing. Second, the cache
  does not answer the fetch (the get command fails, or no unexpired entry is under the
  key): in every later state whose table is the one the update left and whose query does
  not fail, when the update was of an existing live row, the entry is live and no other
  live row has its pair, the fetch returns the updated record from the store. A failure of
  the cache overwrite is logged as a warning and not returned. Nothing is said of a fetch
  that the cache answers after the overwrite failed.\<close>

theorem update_then_fetch_within_ttl:
  assumes "redis dao = Some r"
    and "fst (UpdateConfiguration dao config) = None"
  shows "(set_fault r = None \<longrightarrow>
            redis (snd (snd (UpdateConfiguration dao config))) =
              Some (r\<lparr>kv := (kv r)(cacheKey (Namespace config) (Key config) \<mapsto>
                                   (Value config, now r + 5 * Minute))\<rparr>)
          \<and> (\<forall>(later :: ConfigDAO) written r'.
                redis (snd (snd (UpdateConfiguration dao config))) = Some written
                \<and> redis later = Some r'
                \<and> kv r' (cacheKey (Namespace config) (Key config)) =
                    kv written (cacheKey (Namespace config) (Key config))
                \<and> now r' < now r + 5 * Minute \<and> get_fault r' = None \<longrightarrow>
                GetConfiguration later (Namespace config) (Key config) =
                  (Inr (zero_Configuration
                          \<lparr>Value := Value config, Namespace := Namespace config,
                           Key := Key config\<rparr>), later)))
       \<and> (\<forall>(later :: ConfigDAO) r' e.
             redis later = Some r'
             \<and> redis_Get r' (cacheKey (Namespace config) (Key config)) = Inl e
             \<and> rows (db later) = rows (db (snd (snd (UpdateConfiguration dao config))))
             \<and> query_fault (db later) = None
             \<and> ID config \<noteq> 0 \<and> live config
             \<and> (\<exists>row \<in> set (rows (db dao)). ID row = ID config \<and> live row)
             \<and> (\<forall>row \<in> set (rows (db dao)). live row \<and> ID row \<noteq> ID config \<longrightarrow>
                   \<not> (Namespace row = Namespace config \<and> Key row = Key config)) \<longrightarrow>
             fst (GetConfiguration later (Namespace config) (Key config)) =
               Inr (fst (snd (UpdateConfiguration dao config)))
           \<and> Value (fst (snd (UpdateConfiguration dao config))) = Value config)
       \<and> (\<forall>m. set_fault r = Some m \<longrightarrow>
            log (snd (snd (UpdateConfiguration dao config))) =
              log dao @ [LogEntry WarnLevel ''Failed to update cache'' (Some (RedisError m))
                           [(''cache_key'', cacheKey (Namespace config) (Key config))]])"
proof -
  let ?ck = "cacheKey (Namespace config) (Key config)"
  note st = UpdateConfiguration_store [of dao config]
  have ok: "fst (db_Save (db dao) config) = None"
    using assms(2) st by simp
  have written: "redis (snd (snd (UpdateConfiguration dao config))) =
                   Some (r\<lparr>kv := (kv r)(?ck \<mapsto> (Value config, now r + 5 * Minute))\<rparr>)"
    if "set_fault r = None"
    using UpdateConfiguration_set_ok [OF ok assms(1) that] by simp
  have cached: "GetConfiguration later (Namespace config) (Key config) =
                  (Inr (zero_Configuration
                          \<lparr>Value := Value config, Namespace := Namespace config,
                           Key := Key config\<rparr>), later)"
    if s: "set_fault r = None"
      and l: "redis (snd (snd (UpdateConfiguration dao config))) = Some w
              \<and> redis later = Some r' \<and> kv r' ?ck = kv w ?ck
              \<and> now r' < now r + 5 * Minute \<and> get_fault r' = None"
    for later :: ConfigDAO and w r'
  proof -
    have "w = r\<lparr>kv := (kv r)(?ck \<mapsto> (Value config, now r + 5 * Minute))\<rparr>"
      using written [OF s] l by simp
    then have "kv r' ?ck = Some (Value config, now r + 5 * Minute)"
      using l by simp
    then have "redis_Get r' ?ck = Inr (Value config)"
      using l by (simp add: redis_Get_within_ttl)
    with l show ?thesis by (simp add: GetConfiguration_hit)
  qed
  have stored: "fst (GetConfiguration later (Namespace config) (Key config)) =
                  Inr (fst (snd (UpdateConfiguration dao config)))
              \<and> Value (fst (snd (UpdateConfiguration dao config))) = Value config"
    if l: "redis later = Some r' \<and> redis_Get r' ?ck = Inl e
           \<and> rows (db later) = rows (db (snd (snd (UpdateConfiguration dao config))))
           \<and> query_fault (db later) = None
           \<and> ID config \<noteq> 0 \<and> live config
           \<and> (\<exists>row \<in> set (rows (db dao)). ID row = ID config \<and> live row)
           \<and> (\<forall>row \<in> set (rows (db dao)). live row \<and> ID row \<noteq> ID config \<longrightarrow>
                 \<not> (Namespace row = Namespace config \<and> Key row = Key config))"
    for later :: ConfigDAO and r' e
  proof -
    have f: "fst (GetConfiguration later (Namespace config) (Key config)) =
               db_First_where (db later) (Namespace config) (Key config)"
      using l GetConfiguration_fallthrough [of later r' "Namespace config" "Key config" e]
      by simp
    have same: "rows (db later) = rows (snd (snd (db_Save (db dao) config)))"
      using l st by simp
    have "db_First_where (db later) (Namespace config) (Key config) =
            Inr (fst (snd (db_Save (db dao) config)))"
      using l ok same by (intro db_First_where_saved) simp_all
    then show ?thesis
      using f st db_Save_keeps_pair [of "db dao" config] by simp
  qed
  show ?thesis
  proof (intro conjI allI impI)
    assume "set_fault r = None"
    then show "redis (snd (snd (UpdateConfiguration dao config))) =
                 Some (r\<lparr>kv := (kv r)(?ck \<mapsto> (Value config, now r + 5 * Minute))\<rparr>)"
      by (rule written)
  next
    fix later :: ConfigDAO and w r'
    assume "set_fault r = None"
      and "redis (snd (snd (UpdateConfiguration dao config))) = Some w
              \<and> redis later = Some r' \<and> kv r' ?ck = kv w ?ck
              \<and> now r' < now r + 5 * Minute \<and> get_fault r' = None"
    then show "GetConfiguration later (Namespace config) (Key config) =
                  (Inr (zero_Configuration
                          \<lparr>Value := Value config, Namespace := Namespace config,
                           Key := Key config\<rparr>), later)"
      by (rule cached)
  next
    fix later :: ConfigDAO and r' e
    assume l: "redis later = Some r' \<and> redis_Get r' ?ck = Inl e
           \<and> rows (db later) = rows (db (snd (snd (UpdateConfiguration dao config))))
           \<and> query_fault (db later) = None
           \<and> ID config \<noteq> 0 \<and> live config
           \<and> (\<exists>row \<in> set (rows (db dao)). ID row = ID config \<and> live row)
           \<and> (\<forall>row \<in> set (rows (db dao)). live row \<and> ID row \<noteq> ID config \<longrightarrow>
                 \<not> (Namespace row = Namespace config \<and> Key row = Key config))"
    show "fst (GetConfiguration later (Namespace config) (Key config)) =
            Inr (fst (snd (UpdateConfiguration dao config)))"
      using stored [OF l] by simp
    show "Value (fst (snd (UpdateConfiguration dao config))) = Value config"
      using stored [OF l] by simp
  next
    fix m assume "set_fault r = Some m"
    with ok assms(1)
    show "log (snd (snd (UpdateConfiguration dao config))) =
            log dao @ [LogEntry WarnLevel ''Failed to update cache'' (Some (RedisError m))
                         [(''cache_key'', ?ck)]]"
      by (rule UpdateConfiguration_set_logged)
  qed
qed

theorem update_then_fetch_within_ttl_witness:
  "redis served_at_50 = Some (cache_of [''config:build:timeout'' \<mapsto> (''30'', 300)])
 \<and> fst (UpdateConfiguration served_at_50 changed_timeout) = None
 \<and> redis served_update = Some (cache_of [''config:build:timeout'' \<mapsto> (''60'', 300)])
 \<and> fst (GetConfiguration four_minutes_later ''build'' ''timeout'') =
     Inr \<lparr>ID = 0, Namespace = ''build'', Key = ''timeout'', Value = ''60'', Description = [],
          CreatedAt = 0, UpdatedAt = 0, DeletedAt = None\<rparr>
 \<and> fst (GetConfiguration four_minutes_later_unanswered ''build'' ''timeout'') =
     Inr \<lparr>ID = 1, Namespace = ''build'', Key = ''timeout'', Value = ''60'',
          Description = ''seconds'', CreatedAt = 7, UpdatedAt = 50, DeletedAt = None\<rparr>"
proof -
  let ?ck = "cacheKey (Namespace changed_timeout) (Key changed_timeout)"
  let ?w = "cache_of [''config:build:timeout'' \<mapsto> (''60'', 300)]"
  have r: "redis served_at_50 = Some (cache_of [''config:build:timeout'' \<mapsto> (''30'', 300)])"
    by (simp add: served_at_50_def served_dao_def)
  have c: "UpdateConfiguration served_at_50 changed_timeout =
             (None, changed_timeout\<lparr>UpdatedAt := 50\<rparr>,
              \<lparr>db = (store_of [changed_timeout\<lparr>UpdatedAt := 50\<rparr>])\<lparr>db_now := 50\<rparr>,
               redis = Some ?w, log = []\<rparr>)"
    by (simp add: UpdateConfiguration_def served_at_50_def served_dao_def db_Save_def live_def
          store_of_def changed_timeout_def timeout_row_def Let_def redis_Set_def
          cache_of_def cacheKey_def Minute_def)
  have ok: "fst (UpdateConfiguration served_at_50 changed_timeout) = None"
    by (simp add: c)
  have s: "set_fault (cache_of [''config:build:timeout'' \<mapsto> (''30'', 300)]) = None"
    by (simp add: cache_of_def)
  have p: "Namespace changed_timeout = ''build'' \<and> Key changed_timeout = ''timeout''
         \<and> Value changed_timeout = ''60''"
    by (simp add: changed_timeout_def timeout_row_def)
  have k: "?ck = ''config:build:timeout''"
    by (simp add: p cacheKey_def)
  note T = update_then_fetch_within_ttl [OF r ok]
  have w: "redis (snd (snd (UpdateConfiguration served_at_50 changed_timeout))) = Some ?w"
    by (simp add: c)
  have a: "redis served_update = Some ?w"
    by (simp add: served_update_def w)
  have l: "redis four_minutes_later = Some (?w\<lparr>now := 240\<rparr>)"
    by (simp add: four_minutes_later_def a cache_of_def Minute_def)
  have l1: "kv (?w\<lparr>now := 240\<rparr>) ?ck = kv ?w ?ck
          \<and> now (?w\<lparr>now := 240\<rparr>)
              < now (cache_of [''config:build:timeout'' \<mapsto> (''30'', 300)]) + 5 * Minute
          \<and> get_fault (?w\<lparr>now := 240\<rparr>) = None"
    by (simp add: cache_of_def Minute_def)
  have b: "GetConfiguration four_minutes_later (Namespace changed_timeout)
             (Key changed_timeout) =
             (Inr (zero_Configuration
                     \<lparr>Value := Value changed_timeout, Namespace := Namespace changed_timeout,
                      Key := Key changed_timeout\<rparr>),
              four_minutes_later)"
    using T s w l l1 by blast
  have u: "redis four_minutes_later_unanswered =
             Some (?w\<lparr>now := 240, get_fault := Some ''i/o timeout''\<rparr>)"
    by (simp add: four_minutes_later_unanswered_def l)
  have u1: "redis_Get (?w\<lparr>now := 240, get_fault := Some ''i/o timeout''\<rparr>) ?ck =
              Inl (RedisError ''i/o timeout'')"
    by (simp add: redis_Get_def)
  have u2: "rows (db four_minutes_later_unanswered) =
              rows (db (snd (snd (UpdateConfiguration served_at_50 changed_timeout))))
          \<and> query_fault (db four_minutes_later_unanswered) = None"
    by (simp add: four_minutes_later_unanswered_def four_minutes_later_def served_update_def
          c store_of_def)
  have u3: "ID changed_timeout \<noteq> 0 \<and> live changed_timeout
          \<and> (\<exists>row \<in> set (rows (db served_at_50)). ID row = ID changed_timeout \<and> live row)
          \<and> (\<forall>row \<in> set (rows (db served_at_50)). live row \<and> ID row \<noteq> ID changed_timeout \<longrightarrow>
                \<not> (Namespace row = Namespace changed_timeout \<and> Key row = Key changed_timeout))"
    by (simp add: served_at_50_def served_dao_def store_of_def changed_timeout_def
          timeout_row_def live_def)
  have d: "fst (GetConfiguration four_minutes_later_unanswered (Namespace changed_timeout)
                  (Key changed_timeout)) =
             Inr (fst (snd (UpdateConfiguration served_at_50 changed_timeout)))"
    using T u u1 u2 u3 by blast
  have e: "fst (snd (UpdateConfiguration served_at_50 changed_timeout)) =
             \<lparr>ID = 1, Namespace = ''build'', Key = ''timeout'', Value = ''60'',
              Description = ''seconds'', CreatedAt = 7, UpdatedAt = 50, DeletedAt = None\<rparr>"
    unfolding c by (simp add: changed_timeout_def timeout_row_def)
  show ?thesis
    using r ok a b d by (simp add: p e zero_Configuration_def)
qed

text \<open>C5, as stated, fails for the fetch. From an empty store, without any fault, the same
  four operations (create the scenario entry, fetch it, rename its key by an update, fetch
  the first pair again) leave the same table with and without a cache, but the last fetch
  succeeds with a cache, which still holds the entry of the first fetch, and returns
  not-found without one.\<close>

theorem no_cache_fetch_outcome_counterexample:
  "rename_run empty_cached =
     Inr \<lparr>ID = 0, Namespace = ''build'', Key = ''timeout'', Value = ''30'', Description = [],
          CreatedAt = 0, UpdatedAt = 0, DeletedAt = None\<rparr>
 \<and> rename_run empty_uncached = Inl ErrRecordNotFound
 \<and> redis empty_uncached = None
 \<and> db empty_cached = db empty_uncached"
proof -
  have "redis empty_uncached = None" and "db empty_cached = db empty_uncached"
    by (simp_all add: empty_cached_def empty_uncached_def)
  with rename_run_cached rename_run_uncached show ?thesis by simp
qed

text \<open>C5, amended. With no cache configured each of the four operations is the direct
  access to the store: its result is the result of the store primitive, only the store
  changes, and nothing is logged. With a cache configured, create, update and delete
  return the same error, the same record and leave the same store as without one. The
  fetch leaves the store unchanged in both configurations and returns the same result as
  without a cache whenever the cache get does not return a value; when the cache get
  returns a value, the fetch succeeds with the cached value whatever the store holds.\<close>

theorem no_cache_is_direct_store_access:
  "GetConfiguration (dao\<lparr>redis := None\<rparr>) namespace key =
     (db_First_where (db dao) namespace key, dao\<lparr>redis := None\<rparr>)
 \<and> CreateConfiguration (dao\<lparr>redis := None\<rparr>) config =
     (fst (db_Create (db dao) config), fst (snd (db_Create (db dao) config)),
      dao\<lparr>redis := None, db := snd (snd (db_Create (db dao) config))\<rparr>)
 \<and> UpdateConfiguration (dao\<lparr>redis := None\<rparr>) config =
     (fst (db_Save (db dao) config), fst (snd (db_Save (db dao) config)),
      dao\<lparr>redis := None, db := snd (snd (db_Save (db dao) config))\<rparr>)
 \<and> DeleteConfiguration (dao\<lparr>redis := None\<rparr>) i =
     (case db_First_id (db dao) i of
        Inl err \<Rightarrow> (Some err, dao\<lparr>redis := None\<rparr>)
      | Inr found \<Rightarrow>
          (fst (db_Delete (db dao) found),
           dao\<lparr>redis := None, db := snd (db_Delete (db dao) found)\<rparr>))
 \<and> fst (CreateConfiguration dao config) = fst (CreateConfiguration (dao\<lparr>redis := None\<rparr>) config)
 \<and> fst (snd (CreateConfiguration dao config)) =
     fst (snd (CreateConfiguration (dao\<lparr>redis := None\<rparr>) config))
 \<and> db (snd (snd (CreateConfiguration dao config))) =
     db (snd (snd (CreateConfiguration (dao\<lparr>redis := None\<rparr>) config)))
 \<and> fst (UpdateConfiguration dao config) = fst (UpdateConfiguration (dao\<lparr>redis := None\<rparr>) config)
 \<and> fst (snd (UpdateConfiguration dao config)) =
     fst (snd (UpdateConfiguration (dao\<lparr>redis := None\<rparr>) config))
 \<and> db (snd (snd (UpdateConfiguration dao config))) =
     db (snd (snd (UpdateConfiguration (dao\<lparr>redis := None\<rparr>) config)))
 \<and> fst (DeleteConfiguration dao i) = fst (DeleteConfiguration (dao\<lparr>redis := None\<rparr>) i)
 \<and> db (snd (DeleteConfiguration dao i)) = db (snd (DeleteConfiguration (dao\<lparr>redis := None\<rparr>) i))
 \<and> db (snd (GetConfiguration dao namespace key)) =
     db (snd (GetConfiguration (dao\<lparr>redis := None\<rparr>) namespace key))
 \<and> (\<forall>r. redis dao = Some r \<and> (\<forall>v. redis_Get r (cacheKey namespace key) \<noteq> Inr v) \<longrightarrow>
        fst (GetConfiguration dao namespace key) =
          fst (GetConfiguration (dao\<lparr>redis := None\<rparr>) namespace key))
 \<and> (\<forall>r v. redis dao = Some r \<and> redis_Get r (cacheKey namespace key) = Inr v \<longrightarrow>
        fst (GetConfiguration dao namespace key) =
          Inr (zero_Configuration\<lparr>Value := v, Namespace := namespace, Key := key\<rparr>))"
proof -
  have n: "redis (dao\<lparr>redis := None\<rparr>) = None" and d: "db (dao\<lparr>redis := None\<rparr>) = db dao"
    by simp_all
  have g: "GetConfiguration (dao\<lparr>redis := None\<rparr>) namespace key =
             (db_First_where (db dao) namespace key, dao\<lparr>redis := None\<rparr>)"
    using GetConfiguration_nil [OF n] by simp
  have c: "CreateConfiguration (dao\<lparr>redis := None\<rparr>) config =
     (fst (db_Create (db dao) config), fst (snd (db_Create (db dao) config)),
      dao\<lparr>redis := None, db := snd (snd (db_Create (db dao) config))\<rparr>)"
    using CreateConfiguration_nil [OF n] by simp
  have u: "UpdateConfiguration (dao\<lparr>redis := None\<rparr>) config =
     (fst (db_Save (db dao) config), fst (snd (db_Save (db dao) config)),
      dao\<lparr>redis := None, db := snd (snd (db_Save (db dao) config))\<rparr>)"
    using UpdateConfiguration_nil [OF n] by simp
  have x: "DeleteConfiguration (dao\<lparr>redis := None\<rparr>) i =
     (case db_First_id (db dao) i of
        Inl err \<Rightarrow> (Some err, dao\<lparr>redis := None\<rparr>)
      | Inr found \<Rightarrow>
          (fst (db_Delete (db dao) found),
           dao\<lparr>redis := None, db := snd (db_Delete (db dao) found)\<rparr>))"
    using DeleteConfiguration_nil_path [OF n, of i] by (simp split: sum.splits)
  have miss: "fst (GetConfiguration dao namespace key) =
                fst (GetConfiguration (dao\<lparr>redis := None\<rparr>) namespace key)"
    if "redis dao = Some r \<and> (\<forall>v. redis_Get r (cacheKey namespace key) \<noteq> Inr v)" for r
  proof -
    have "\<exists>e. redis_Get r (cacheKey namespace key) = Inl e"
      using that by (cases "redis_Get r (cacheKey namespace key)") simp_all
    then obtain e where "redis_Get r (cacheKey namespace key) = Inl e" ..
    with that show ?thesis
      by (simp add: g GetConfiguration_fallthrough)
  qed
  have hit: "fst (GetConfiguration dao namespace key) =
               Inr (zero_Configuration\<lparr>Value := v, Namespace := namespace, Key := key\<rparr>)"
    if "redis dao = Some r \<and> redis_Get r (cacheKey namespace key) = Inr v" for r v
    using that by (simp add: GetConfiguration_hit)
  show ?thesis
  proof (intro conjI allI impI)
    show "fst (DeleteConfiguration dao i) = fst (DeleteConfiguration (dao\<lparr>redis := None\<rparr>) i)"
      using DeleteConfiguration_outcome [of dao i]
        DeleteConfiguration_outcome [of "dao\<lparr>redis := None\<rparr>" i]
      by (simp split: sum.splits)
    show "db (snd (DeleteConfiguration dao i)) =
            db (snd (DeleteConfiguration (dao\<lparr>redis := None\<rparr>) i))"
      using DeleteConfiguration_outcome [of dao i]
        DeleteConfiguration_outcome [of "dao\<lparr>redis := None\<rparr>" i]
      by (simp split: sum.splits)
  next
    fix r
    assume "redis dao = Some r \<and> (\<forall>v. redis_Get r (cacheKey namespace key) \<noteq> Inr v)"
    then show "fst (GetConfiguration dao namespace key) =
                 fst (GetConfiguration (dao\<lparr>redis := None\<rparr>) namespace key)"
      by (rule miss)
  next
    fix r v
    assume "redis dao = Some r \<and> redis_Get r (cacheKey namespace key) = Inr v"
    then show "fst (GetConfiguration dao namespace key) =
                 Inr (zero_Configuration\<lparr>Value := v, Namespace := namespace, Key := key\<rparr>)"
      by (rule hit)
  qed (simp_all add: g c u x CreateConfiguration_store UpdateConfiguration_store
         GetConfiguration_db)
qed

theorem no_cache_is_direct_store_access_witness:
  "redis cold_dao = Some (cache_of Map.empty)
 \<and> redis_Get (cache_of Map.empty) (cacheKey ''build'' ''timeout'') = Inl RedisNil
 \<and> fst (GetConfiguration (cold_dao\<lparr>redis := None\<rparr>) ''build'' ''timeout'') = Inr timeout_row
 \<and> fst (GetConfiguration cold_dao ''build'' ''timeout'') = Inr timeout_row
 \<and> db (snd (GetConfiguration cold_dao ''build'' ''timeout'')) = store_of [timeout_row]"
proof -
  have r: "redis cold_dao = Some (cache_of Map.empty)"
    by (simp add: cold_dao_def)
  have m: "redis_Get (cache_of Map.empty) (cacheKey ''build'' ''timeout'') = Inl RedisNil"
    by (simp add: redis_Get_def holds_def cache_of_def)
  have f: "db_First_where (db cold_dao) ''build'' ''timeout'' = Inr timeout_row"
    by (simp add: db_First_where_def cold_dao_def store_of_def timeout_row_def live_def)
  note T = no_cache_is_direct_store_access [of cold_dao "''build''" "''timeout''"]
  have a: "fst (GetConfiguration (cold_dao\<lparr>redis := None\<rparr>) ''build'' ''timeout'') =
             Inr timeout_row"
    using T f by simp
  have b: "fst (GetConfiguration cold_dao ''build'' ''timeout'') =
             fst (GetConfiguration (cold_dao\<lparr>redis := None\<rparr>) ''build'' ''timeout'')"
    using T r m by simp
  have c: "db (snd (GetConfiguration cold_dao ''build'' ''timeout'')) = db cold_dao"
    using T by simp
  show ?thesis
    using r m a b c by (simp add: cold_dao_def)
qed

end
